theory Spec2Isabelle
  imports Main "HOL-Library.AList"
begin

section \<open>Strings and the path library\<close>

text \<open>
  JavaScript strings are modelled as \<^typ>\<open>string\<close>; the code only inspects the
  characters \<open>/\<close>, \<open>.\<close>, the letters of the fixture suffix and the line terminators.

  The functions \<open>path.dirname\<close>, \<open>path.basename\<close>, \<open>path.extname\<close> and
  \<open>path.join\<close> belong to the runtime (module \<open>node:path\<close>), not to the repository.
  They are written here after the POSIX variant of that module: each function scans the
  path from its end, skips trailing separators and works on the last component.
\<close>

definition is_sep :: "char \<Rightarrow> bool" where
  "is_sep c = (c = CHR ''/'')"

definition last_component :: "string \<Rightarrow> string" where
  "last_component p = rev (takeWhile (\<lambda>c. \<not> is_sep c) (dropWhile is_sep (rev p)))"

definition trailing_seps :: "string \<Rightarrow> string" where
  "trailing_seps p = takeWhile is_sep (rev p)"

definition ends_with :: "string \<Rightarrow> string \<Rightarrow> bool" where
  "ends_with s suf = (length suf \<le> length s \<and> drop (length s - length suf) s = suf)"

text \<open>\<open>path.dirname(p)\<close>: the index 0 is never examined by the scan.\<close>

definition dirname :: "string \<Rightarrow> string" where
  "dirname p =
     (if p = [] then ''.''
      else
        let hasRoot = is_sep (hd p);
            r = dropWhile (\<lambda>c. \<not> is_sep c) (dropWhile is_sep (rev (tl p)));
            end = length r
        in if r = [] then (if hasRoot then ''/'' else ''.'')
           else if hasRoot \<and> end = 1 then ''//''
           else take end p)"

text \<open>\<open>path.basename(p)\<close> with no suffix argument.\<close>

definition basename :: "string \<Rightarrow> string" where
  "basename p = last_component p"

text \<open>
  \<open>path.basename(p, suffix)\<close>. The suffix is compared backwards with the last component
  only. A component that is the whole suffix is kept; when the component ends before the
  suffix does, the slice runs to the end of the path.
\<close>

definition basename_suffix :: "string \<Rightarrow> string \<Rightarrow> string" where
  "basename_suffix p suffix =
     (if suffix = [] \<or> length p < length suffix then basename p
      else if suffix = p then []
      else
        let comp = last_component p
        in if comp = [] then p
           else if ends_with comp suffix then
             (if length comp = length suffix then comp
              else take (length comp - length suffix) comp)
           else if ends_with suffix comp then comp @ trailing_seps p
           else comp)"

text \<open>\<open>path.extname(p)\<close>: from the last dot of the last component to its end.\<close>

definition extname :: "string \<Rightarrow> string" where
  "extname p =
     (let comp = last_component p
      in if CHR ''.'' \<notin> set comp then []
         else
           let ext = CHR ''.'' # rev (takeWhile (\<lambda>c. c \<noteq> CHR ''.'') (rev comp));
               pre = take (length comp - length ext) comp
           in if pre = [] \<or> comp = ''..'' then [] else ext)"

fun split_sep :: "string \<Rightarrow> string list" where
  "split_sep [] = [[]]"
| "split_sep (c # cs) =
     (if is_sep c then [] # split_sep cs
      else (case split_sep cs of [] \<Rightarrow> [[c]] | s # ss \<Rightarrow> (c # s) # ss))"

fun join_sep :: "string list \<Rightarrow> string" where
  "join_sep [] = []"
| "join_sep [s] = s"
| "join_sep (s # t # ss) = s @ CHR ''/'' # join_sep (t # ss)"

text \<open>
  \<open>normalizeString\<close>: empty and \<open>.\<close> segments are dropped, \<open>..\<close> removes the
  segment before it, or is kept when nothing is left to remove and the path is relative.
\<close>

fun normalizeSegments :: "bool \<Rightarrow> string list \<Rightarrow> string list \<Rightarrow> string list" where
  "normalizeSegments allowAboveRoot res [] = res"
| "normalizeSegments allowAboveRoot res (s # ss) =
     (if s = [] \<or> s = ''.'' then normalizeSegments allowAboveRoot res ss
      else if s = ''..'' then
        (if res \<noteq> [] \<and> last res \<noteq> ''..''
           then normalizeSegments allowAboveRoot (butlast res) ss
         else if allowAboveRoot
           then normalizeSegments allowAboveRoot (res @ [''..'']) ss
         else normalizeSegments allowAboveRoot res ss)
      else normalizeSegments allowAboveRoot (res @ [s]) ss)"

definition normalize :: "string \<Rightarrow> string" where
  "normalize p =
     (if p = [] then ''.''
      else
        let isAbsolute = is_sep (hd p);
            trailingSeparator = is_sep (last p);
            s = join_sep (normalizeSegments (\<not> isAbsolute) [] (split_sep p))
        in if s = [] then
             (if isAbsolute then ''/'' else if trailingSeparator then ''./'' else ''.'')
           else (if isAbsolute then ''/'' else []) @ s
                @ (if trailingSeparator then ''/'' else []))"

text \<open>\<open>path.join(...args)\<close>: empty arguments are skipped.\<close>

definition path_join :: "string list \<Rightarrow> string" where
  "path_join args =
     (let joined = join_sep (filter (\<lambda>a. a \<noteq> []) args)
      in if joined = [] then ''.'' else normalize joined)"

section \<open>The fixture suffix\<close>

text \<open>
  \<open>s.replace(/\.fixture.js$/, r)\<close> and \<open>s.replace(/\.fixture\.js$/, r)\<close>. Both patterns
  have eleven characters and are anchored at the end, so the only possible match is the
  last eleven characters of \<open>s\<close>. In the first pattern the dot before \<open>js\<close> is not
  escaped: it matches any character but a line terminator.
\<close>

definition line_terminator :: "char \<Rightarrow> bool" where
  "line_terminator c = (c = CHR 0x0A \<or> c = CHR 0x0D)"

definition matches_fixture_anychar :: "string \<Rightarrow> bool" where
  "matches_fixture_anychar t =
     (length t = 11 \<and> take 8 t = ''.fixture'' \<and> \<not> line_terminator (t ! 8)
      \<and> drop 9 t = ''js'')"

definition matches_fixture_dot :: "string \<Rightarrow> bool" where
  "matches_fixture_dot t = (t = ''.fixture.js'')"

definition replace_at_end :: "(string \<Rightarrow> bool) \<Rightarrow> string \<Rightarrow> string \<Rightarrow> string" where
  "replace_at_end pat r s =
     (let n = length s
      in if 11 \<le> n \<and> pat (drop (n - 11) s) then take (n - 11) s @ r else s)"

section \<open>Numbers in template literals\<close>

text \<open>\<open>`${index}`\<close> prints an array index in decimal.\<close>

definition digit_char :: "nat \<Rightarrow> char" where
  "digit_char d = ''0123456789'' ! d"

function string_of_nat :: "nat \<Rightarrow> string" where
  "string_of_nat n =
     (if n < 10 then [digit_char n]
      else string_of_nat (n div 10) @ [digit_char (n mod 10)])"
  by pat_completeness auto
termination
  by (relation "measure (\<lambda>n. n)") auto

declare string_of_nat.simps [simp del]

section \<open>Data model\<close>

text \<open>
  \<open>Fixture\<close> is \<open>{ fixturePath, name }\<close>. \<open>BuildResult\<close> is
  \<open>{ name?, outputPath, debugOutputPath? }\<close>; its optional fields are options, and its
  \<open>name\<close> is written \<open>result_name\<close> here because a record field name is global.
  The optional flag \<open>debug?: boolean\<close> is a \<^typ>\<open>bool option\<close>; it is truthy exactly
  when it is \<open>Some True\<close>. A string is truthy when it is not empty.
\<close>

record Fixture =
  fixturePath :: string
  name :: string

record BuildResult =
  result_name :: "string option"
  outputPath :: "string"
  debugOutputPath :: "string option"

definition truthy :: "bool option \<Rightarrow> bool" where
  "truthy debug = (debug = Some True)"

definition truthy_string :: "string option \<Rightarrow> bool" where
  "truthy_string s = (case s of None \<Rightarrow> False | Some t \<Rightarrow> t \<noteq> [])"

text \<open>
  What a build can be rejected with: the \<open>TypeError\<close> of reading a property of
  \<open>fixtures[0]\<close> when it is \<open>undefined\<close>, the error the compiler passes to its
  callback, the joined compilation errors, or a failure thrown by a backend.
\<close>

datatype rejection =
    TypeError
  | CompilerError string
  | CompilationErrors string
  | BackendError string

text \<open>
  A promise is settled once: \<open>reject\<close> and \<open>resolve\<close> on a settled promise do nothing.
\<close>

datatype 'a promise = Pending | Fulfilled 'a | Rejected rejection

definition reject :: "rejection \<Rightarrow> 'a promise \<Rightarrow> 'a promise" where
  "reject r p = (case p of Pending \<Rightarrow> Rejected r | _ \<Rightarrow> p)"

definition resolve :: "'a \<Rightarrow> 'a promise \<Rightarrow> 'a promise" where
  "resolve v p = (case p of Pending \<Rightarrow> Fulfilled v | _ \<Rightarrow> p)"

text \<open>
  The enhancer callback and the backend are supplied by the caller. Every call of either
  is recorded, with its argument, in a log that the builds thread through. An enhancer
  that changes the object it is given and returns it is the function from the object
  given to the object returned.
\<close>

record 'c world =
  enhancer_calls :: "'c list"
  backend_calls :: "'c list"

definition call_enhancer :: "('c \<Rightarrow> 'c) \<Rightarrow> 'c \<Rightarrow> 'c world \<Rightarrow> 'c \<times> 'c world" where
  "call_enhancer enhanceConfig config w =
     (enhanceConfig config, w\<lparr>enhancer_calls := enhancer_calls w @ [config]\<rparr>)"

definition call_backend :: "('c \<Rightarrow> 'r) \<Rightarrow> 'c \<Rightarrow> 'c world \<Rightarrow> 'r \<times> 'c world" where
  "call_backend backend config w =
     (backend config, w\<lparr>backend_calls := backend_calls w @ [config]\<rparr>)"

text \<open>
  A JavaScript object used as a string-keyed record (\<open>Record<string, string>\<close>) is an
  association list: \<open>obj[k] = v\<close> overwrites the value of an existing key in place and
  appends a new key. Two things JavaScript does with particular keys are not modelled:
  an object enumerates integer-like keys first, in ascending order, and an assignment of
  a string to the key \<open>__proto__\<close> stores no property. Neither arises for keys that
  end in \<open>.output\<close> or \<open>.debug\<close>.
\<close>

definition assign :: "string \<Rightarrow> 'v \<Rightarrow> (string \<times> 'v) list \<Rightarrow> (string \<times> 'v) list" where
  "assign k v obj = AList.update k v obj"

section \<open>Webpack: \<open>runWebpack.mts\<close>\<close>

text \<open>
  The configuration object, with the nested settings the code writes. The field
  \<open>name\<close> is written \<open>config_name\<close>, \<open>output\<close> is written \<open>output_settings\<close>,
  \<open>cache.type\<close> is \<open>cache_type\<close>, \<open>performance.hints\<close> is \<open>performance_hints\<close> and
  \<open>stats.optimizationBailout\<close> is \<open>stats_optimizationBailout\<close>; a key the code leaves
  out is \<open>None\<close>.
\<close>

datatype plugin = TerserWebpackPlugin (extractComments: bool) (format_comments: bool)

record optimization_config =
  minimize :: "bool option"
  minimizer :: "plugin list"

record output_config =
  filename :: string
  path :: string
  pathinfo :: "bool option"

datatype entry_config = SingleEntry string | EntryMap "(string \<times> string) list"

record base_config =
  config_name :: string
  target :: string
  mode :: string
  cache_type :: string
  externals :: "(string \<times> string) list"
  performance_hints :: bool
  optimization :: optimization_config
  stats_optimizationBailout :: "bool option"

record webpack_config = base_config +
  entry :: entry_config
  output_settings :: output_config

definition createBaseWebpackConfig :: "bool \<Rightarrow> base_config" where
  "createBaseWebpackConfig debug =
     \<lparr> config_name = ''client'',
       target = ''web'',
       mode = ''production'',
       cache_type = ''memory'',
       externals = [(''react'', ''React''), (''react-dom'', ''ReactDOM'')],
       performance_hints = False,
       optimization =
         (if debug then \<lparr> minimize = Some False, minimizer = [] \<rparr>
          else \<lparr> minimize = None, minimizer = [TerserWebpackPlugin False False] \<rparr>),
       stats_optimizationBailout = (if debug then Some True else None) \<rparr>"

definition createWebpackConfig :: "string \<Rightarrow> string \<Rightarrow> bool \<Rightarrow> webpack_config" where
  "createWebpackConfig fixturePath' outputPath' debug =
     base_config.extend (createBaseWebpackConfig debug)
       (webpack_config.fields
          (SingleEntry fixturePath')
          \<lparr> filename = basename outputPath',
            path = dirname outputPath',
            pathinfo = (if debug then Some True else None) \<rparr>)"

text \<open>
  The entry key of a fixture: \<open>path.basename(outputPath, path.extname(outputPath))\<close>.
\<close>

definition entryKey :: "string \<Rightarrow> string" where
  "entryKey outputPath' = basename_suffix outputPath' (extname outputPath')"

text \<open>
  The body of \<open>fixtures.forEach(({ fixturePath, outputPath }, index) => ...)\<close> in
  \<open>createMultiEntryWebpackConfig\<close>. The state is the \<open>entry\<close> object and the set
  \<open>seenKeys\<close>, kept as the list of its members. \<open>entryName_of\<close> is the value of the
  variable \<open>entryName\<close> when it is added to \<open>seenKeys\<close>.
\<close>

definition entryName_of :: "string list \<Rightarrow> string \<Rightarrow> nat \<Rightarrow> string" where
  "entryName_of seenKeys outputPath' index =
     (let entryName = entryKey outputPath'
      in if entryName \<in> set seenKeys then entryName @ ''_'' @ string_of_nat index
         else entryName)"

definition entry_step ::
  "string \<times> string \<Rightarrow> nat \<Rightarrow> (string \<times> string) list \<times> string list
     \<Rightarrow> (string \<times> string) list \<times> string list" where
  "entry_step fixture index st =
     (case fixture of (fixturePath', outputPath') \<Rightarrow>
      case st of (entry', seenKeys) \<Rightarrow>
        let entryName = entryName_of seenKeys outputPath' index
        in (assign entryName fixturePath' entry', List.insert entryName seenKeys))"

fun entry_loop ::
  "(string \<times> string) list \<Rightarrow> nat \<Rightarrow> (string \<times> string) list \<times> string list
     \<Rightarrow> (string \<times> string) list \<times> string list" where
  "entry_loop [] index st = st"
| "entry_loop (fixture # fixtures) index st =
     entry_loop fixtures (Suc index) (entry_step fixture index st)"

text \<open>
  The names the loop gives, in input order: the value of \<open>entryName\<close> in each iteration.
\<close>

fun entryNames :: "(string \<times> string) list \<Rightarrow> nat \<Rightarrow> string list \<Rightarrow> string list" where
  "entryNames [] index seenKeys = []"
| "entryNames (fixture # fixtures) index seenKeys =
     (let entryName = entryName_of seenKeys (snd fixture) index
      in entryName # entryNames fixtures (Suc index) (List.insert entryName seenKeys))"

text \<open>
  \<open>fixtures[0].outputPath\<close> throws a \<open>TypeError\<close> when the array is empty; the loop
  has run before that.
\<close>

definition createMultiEntryWebpackConfig ::
  "(string \<times> string) list \<Rightarrow> bool \<Rightarrow> rejection + webpack_config" where
  "createMultiEntryWebpackConfig fixtures debug =
     (let entry' = fst (entry_loop fixtures 0 ([], []))
      in case fixtures of
           [] \<Rightarrow> Inl TypeError
         | first # _ \<Rightarrow>
             let outputDir = dirname (snd first)
             in Inr (base_config.extend (createBaseWebpackConfig debug)
                  (webpack_config.fields
                     (EntryMap entry')
                     \<lparr> filename = ''[name].js'',
                       path = outputDir,
                       pathinfo = (if debug then Some True else None) \<rparr>)))"

text \<open>
  The result of \<open>compiler.run\<close>: the arguments \<open>(err, result)\<close> of its callback. Of the
  \<open>Stats\<close> object only \<open>hasErrors()\<close> and \<open>compilation.errors\<close> are read; each error is
  represented by the string it prints as.
\<close>

record compile_stats =
  hasErrors :: bool
  compilation_errors :: "string list"

fun join_newline :: "string list \<Rightarrow> string" where
  "join_newline [] = []"
| "join_newline [e] = e"
| "join_newline (e # f # es) = e @ CHR 0x0A # join_newline (f # es)"

definition compiler_callback ::
  "string option \<Rightarrow> compile_stats option \<Rightarrow> unit promise \<Rightarrow> unit promise" where
  "compiler_callback err result p =
     (let p1 = (case err of Some e \<Rightarrow> reject (CompilerError e) p | None \<Rightarrow> p);
          p2 = (case result of
                  Some r \<Rightarrow>
                    if hasErrors r
                    then reject (CompilationErrors (join_newline (compilation_errors r))) p1
                    else p1
                | None \<Rightarrow> p1)
      in resolve () p2)"

text \<open>
  \<open>webpack(config)\<close> followed by \<open>compiler.run\<close>, as the pair its callback receives. The
  option \<open>quiet\<close> of both runs is never read.
\<close>

type_synonym webpack_backend = "webpack_config \<Rightarrow> string option \<times> compile_stats option"

definition runWebpack ::
  "(webpack_config \<Rightarrow> webpack_config) \<Rightarrow> webpack_backend \<Rightarrow> string \<Rightarrow> string \<Rightarrow> bool
     \<Rightarrow> webpack_config world \<Rightarrow> unit promise \<times> webpack_config world" where
  "runWebpack enhanceConfig webpack fixturePath' outputPath' debug w =
     (case call_enhancer enhanceConfig (createWebpackConfig fixturePath' outputPath' debug) w of
        (webpackConfig, w1) \<Rightarrow>
          case call_backend webpack webpackConfig w1 of
            ((err, result), w2) \<Rightarrow> (compiler_callback err result Pending, w2))"

definition runWebpackMultiEntry ::
  "(webpack_config \<Rightarrow> webpack_config) \<Rightarrow> webpack_backend \<Rightarrow> (string \<times> string) list \<Rightarrow> bool
     \<Rightarrow> webpack_config world \<Rightarrow> unit promise \<times> webpack_config world" where
  "runWebpackMultiEntry enhanceConfig webpack fixtures debug w =
     (case createMultiEntryWebpackConfig fixtures debug of
        Inl e \<Rightarrow> (Rejected e, w)
      | Inr defaultConfig \<Rightarrow>
          case call_enhancer enhanceConfig defaultConfig w of
            (webpackConfig, w1) \<Rightarrow>
              case call_backend webpack webpackConfig w1 of
                ((err, result), w2) \<Rightarrow> (compiler_callback err result Pending, w2))"

subsection \<open>The earlier version of the same file\<close>

definition createWebpackConfig_old :: "string \<Rightarrow> string \<Rightarrow> bool \<Rightarrow> webpack_config" where
  "createWebpackConfig_old fixturePath' outputPath' debug =
     \<lparr> config_name = ''client'',
       target = ''web'',
       mode = ''production'',
       cache_type = ''memory'',
       externals = [(''react'', ''React''), (''react-dom'', ''ReactDOM'')],
       performance_hints = False,
       optimization =
         (if debug then \<lparr> minimize = Some False, minimizer = [] \<rparr>
          else \<lparr> minimize = None, minimizer = [TerserWebpackPlugin False False] \<rparr>),
       stats_optimizationBailout = (if debug then Some True else None),
       entry = SingleEntry fixturePath',
       output_settings = \<lparr> filename = basename outputPath',
                  path = dirname outputPath',
                  pathinfo = (if debug then Some True else None) \<rparr> \<rparr>"

fun entry_loop_old ::
  "(string \<times> string) list \<Rightarrow> (string \<times> string) list \<Rightarrow> (string \<times> string) list" where
  "entry_loop_old [] entry' = entry'"
| "entry_loop_old ((fixturePath', outputPath') # fixtures) entry' =
     (let entryName = entryKey outputPath'
      in entry_loop_old fixtures (assign entryName fixturePath' entry'))"

definition createMultiEntryWebpackConfig_old ::
  "(string \<times> string) list \<Rightarrow> bool \<Rightarrow> rejection + webpack_config" where
  "createMultiEntryWebpackConfig_old fixtures debug =
     (let entry' = entry_loop_old fixtures []
      in case fixtures of
           [] \<Rightarrow> Inl TypeError
         | first # _ \<Rightarrow>
             let outputDir = dirname (snd first)
             in Inr \<lparr> config_name = ''client'',
                  target = ''web'',
                  mode = ''production'',
                  cache_type = ''memory'',
                  externals = [(''react'', ''React''), (''react-dom'', ''ReactDOM'')],
                  performance_hints = False,
                  optimization =
                    (if debug then \<lparr> minimize = Some False, minimizer = [] \<rparr>
                     else \<lparr> minimize = None,
                            minimizer = [TerserWebpackPlugin False False] \<rparr>),
                  stats_optimizationBailout = (if debug then Some True else None),
                  entry = EntryMap entry',
                  output_settings = \<lparr> filename = ''[name].js'',
                             path = outputDir,
                             pathinfo = (if debug then Some True else None) \<rparr> \<rparr>)"

section \<open>esbuild: \<open>createEsbuildBundler\<close>\<close>

text \<open>
  \<open>runEsbuild\<close> and \<open>runEsbuildMultiEntry\<close> are imported from a module that is not
  part of the sources at hand; they are parameters here. Each receives the enhancer and
  the options the adapter passes, and returns the rejection of its promise, if any.
  The adapter reads \<open>fixturePath\<close> and \<open>quiet\<close> from its options and never \<open>debug\<close>.
\<close>

definition esbuild_buildFixture ::
  "('c \<Rightarrow> string \<Rightarrow> string \<Rightarrow> bool \<Rightarrow> rejection option) \<Rightarrow> 'c
     \<Rightarrow> string \<Rightarrow> bool \<Rightarrow> bool option \<Rightarrow> rejection + BuildResult" where
  "esbuild_buildFixture runEsbuild configEnhancerCallback fixturePath' quiet debug =
     (let outputPath' = replace_at_end matches_fixture_anychar ''.output.js'' fixturePath'
      in case runEsbuild configEnhancerCallback fixturePath' outputPath' quiet of
           Some e \<Rightarrow> Inl e
         | None \<Rightarrow>
             Inr \<lparr> result_name = None, outputPath = outputPath', debugOutputPath = None \<rparr>)"

definition esbuild_buildFixtures ::
  "('c \<Rightarrow> (string \<times> string) list \<Rightarrow> bool \<Rightarrow> rejection option) \<Rightarrow> 'c
     \<Rightarrow> Fixture list \<Rightarrow> bool \<Rightarrow> bool option \<Rightarrow> rejection + BuildResult list" where
  "esbuild_buildFixtures runEsbuildMultiEntry configEnhancerCallback fixtures quiet debug =
     (let fixturesWithPaths =
            map (\<lambda>f. (fixturePath f, name f,
                       replace_at_end matches_fixture_anychar ''.output.js'' (fixturePath f)))
              fixtures
      in case runEsbuildMultiEntry configEnhancerCallback
                (map (\<lambda>(fixturePath', name', outputPath'). (fixturePath', outputPath'))
                   fixturesWithPaths) quiet of
           Some e \<Rightarrow> Inl e
         | None \<Rightarrow>
             Inr (map (\<lambda>(fixturePath', name', outputPath').
                         \<lparr> result_name = Some name', outputPath = outputPath',
                           debugOutputPath = None \<rparr>)
                    fixturesWithPaths))"

section \<open>Rsbuild: \<open>createRspackBundler\<close>\<close>

text \<open>
  An environment configuration. \<open>output.externals\<close>, \<open>output.target\<close>,
  \<open>output.filename.js\<close>, \<open>output.distPath.root\<close>, \<open>output.distPath.js\<close> and
  \<open>performance.chunkSplit.strategy\<close> are the fields \<open>output_externals\<close>,
  \<open>output_target\<close>, \<open>filename_js\<close>, \<open>distPath_root\<close>, \<open>distPath_js\<close> and
  \<open>chunkSplit_strategy\<close>.
\<close>

record environment_output =
  output_externals :: "(string \<times> string) list"
  output_target :: string
  emitAssets :: bool
  filename_js :: string
  distPath_root :: string
  distPath_js :: string
  minify :: bool

record environment_config =
  source_entry :: "(string \<times> string) list"
  env_output :: environment_output
  chunkSplit_strategy :: string

record rsbuild_config =
  root :: string
  rsbuild_mode :: string
  dev_progressBar :: bool
  environments :: "(string \<times> environment_config) list"

definition createEnvironmentConfig ::
  "string \<Rightarrow> string \<Rightarrow> string option \<Rightarrow> (string \<times> environment_config) list" where
  "createEnvironmentConfig fixturePath' outputPath' debugOutputPath' =
     (let environmentConfig =
            \<lparr> source_entry = [(''index'', fixturePath')],
              env_output =
                \<lparr> output_externals = [(''react'', ''React''), (''react-dom'', ''ReactDOM'')],
                  output_target = ''web'',
                  emitAssets = False,
                  filename_js = basename outputPath',
                  distPath_root = dirname outputPath',
                  distPath_js = ''./'',
                  minify = True \<rparr>,
              chunkSplit_strategy = ''all-in-one'' \<rparr>
      in (''default'', environmentConfig) #
         (if truthy_string debugOutputPath' then
            [(''debug'',
              environmentConfig
                \<lparr> env_output := (env_output environmentConfig)
                     \<lparr> filename_js := basename (the debugOutputPath'), minify := False \<rparr> \<rparr>)]
          else []))"

text \<open>
  \<open>createMultiEntryEnvironmentConfig\<close>: a fixture is
  \<open>{ fixturePath, outputPath, debugOutputPath? }\<close>. The first statement reads
  \<open>fixtures[0].outputPath\<close>.
\<close>

definition createMultiEntryEnvironmentConfig ::
  "(string \<times> string \<times> string option) list \<Rightarrow> bool option
     \<Rightarrow> rejection + (string \<times> environment_config) list" where
  "createMultiEntryEnvironmentConfig fixtures debug =
     (case fixtures of
        [] \<Rightarrow> Inl TypeError
      | first # _ \<Rightarrow>
          let outputDir = dirname (fst (snd first));
              entry' = foldl (\<lambda>acc (fixturePath', outputPath', debugOutputPath').
                                assign (entryKey outputPath') fixturePath' acc)
                         [] fixtures;
              environmentConfig =
                \<lparr> source_entry = entry',
                  env_output =
                    \<lparr> output_externals =
                        [(''react'', ''React''), (''react-dom'', ''ReactDOM'')],
                      output_target = ''web'',
                      emitAssets = False,
                      filename_js = ''[name].js'',
                      distPath_root = outputDir,
                      distPath_js = ''./'',
                      minify = True \<rparr>,
                  chunkSplit_strategy = ''all-in-one'' \<rparr>
          in if \<not> truthy debug then Inr [(''default'', environmentConfig)]
             else
               let debugEntry =
                     foldl (\<lambda>acc (fixturePath', outputPath', debugOutputPath').
                              if truthy_string debugOutputPath' then
                                assign (entryKey (the debugOutputPath')) fixturePath' acc
                              else acc)
                       [] fixtures
               in Inr [(''default'', environmentConfig),
                       (''debug'',
                        environmentConfig
                          \<lparr> source_entry := debugEntry,
                            env_output := (env_output environmentConfig)
                              \<lparr> minify := False \<rparr> \<rparr>)])"

text \<open>
  The backend: \<open>createRsbuild\<close>, \<open>build\<close> and \<open>close\<close>, which the adapter awaits in
  turn; it is a parameter that returns the rejection, if any of the three fails. The
  assignment \<open>logger.level = 'error'\<close> is left out, and so is the option \<open>quiet\<close>,
  which the adapter reads and never uses.
\<close>

type_synonym rsbuild_backend = "rsbuild_config \<Rightarrow> rejection option"

definition rspack_buildFixture ::
  "(rsbuild_config \<Rightarrow> rsbuild_config) \<Rightarrow> rsbuild_backend \<Rightarrow> bool option \<Rightarrow> string
     \<Rightarrow> rsbuild_config world \<Rightarrow> (rejection + BuildResult) \<times> rsbuild_config world" where
  "rspack_buildFixture configEnhancerCallback rsbuild debug fixturePath' w =
     (let rootDir = dirname fixturePath';
          artifactsDir = path_join [rootDir, ''dist''];
          fixtureName = basename fixturePath';
          outputPath' =
            path_join [artifactsDir,
              replace_at_end matches_fixture_dot ''.output.js'' fixtureName];
          debugOutputPath' =
            path_join [artifactsDir,
              replace_at_end matches_fixture_anychar ''.debug.js'' fixtureName]
      in case call_enhancer configEnhancerCallback
                \<lparr> root = rootDir,
                  rsbuild_mode = ''production'',
                  dev_progressBar = False,
                  environments =
                    createEnvironmentConfig fixturePath' outputPath'
                      (if truthy debug then Some debugOutputPath' else None) \<rparr> w of
           (rsbuildConfig, w1) \<Rightarrow>
             case call_backend rsbuild rsbuildConfig w1 of
               (Some e, w2) \<Rightarrow> (Inl e, w2)
             | (None, w2) \<Rightarrow>
                 (Inr \<lparr> result_name = None,
                        outputPath = outputPath',
                        debugOutputPath =
                          (if truthy debug then Some debugOutputPath' else None) \<rparr>, w2))"

definition rspack_buildFixtures ::
  "(rsbuild_config \<Rightarrow> rsbuild_config) \<Rightarrow> rsbuild_backend \<Rightarrow> bool option \<Rightarrow> Fixture list
     \<Rightarrow> rsbuild_config world \<Rightarrow> (rejection + BuildResult list) \<times> rsbuild_config world" where
  "rspack_buildFixtures configEnhancerCallback rsbuild debug fixtures w =
     (let fixturesWithPaths =
            map (\<lambda>f.
                   let rootDir = dirname (fixturePath f);
                       artifactsDir = path_join [rootDir, ''dist''];
                       fixtureName = basename (fixturePath f)
                   in (fixturePath f, name f,
                       path_join [artifactsDir,
                         replace_at_end matches_fixture_dot ''.output.js'' fixtureName],
                       path_join [artifactsDir,
                         replace_at_end matches_fixture_anychar ''.debug.js'' fixtureName]))
              fixtures
      in case fixtures of
           [] \<Rightarrow> (Inl TypeError, w)
         | first # _ \<Rightarrow>
             let rootDir = dirname (fixturePath first)
             in case createMultiEntryEnvironmentConfig
                       (map (\<lambda>(fixturePath', name', outputPath', debugOutputPath').
                               (fixturePath', outputPath', Some debugOutputPath'))
                          fixturesWithPaths) debug of
                  Inl e \<Rightarrow> (Inl e, w)
                | Inr environments' \<Rightarrow>
                    case call_enhancer configEnhancerCallback
                           \<lparr> root = rootDir,
                             rsbuild_mode = ''production'',
                             dev_progressBar = False,
                             environments = environments' \<rparr> w of
                      (rsbuildConfig, w1) \<Rightarrow>
                        case call_backend rsbuild rsbuildConfig w1 of
                          (Some e, w2) \<Rightarrow> (Inl e, w2)
                        | (None, w2) \<Rightarrow>
                            (Inr (map (\<lambda>(fixturePath', name', outputPath', debugOutputPath').
                                         \<lparr> result_name = Some name',
                                           outputPath = outputPath',
                                           debugOutputPath =
                                             (if truthy debug then Some debugOutputPath'
                                              else None) \<rparr>)
                                    fixturesWithPaths), w2))"

section \<open>Notions used in the statements\<close>

text \<open>
  A settled promise is rejected or fulfilled. \<open>reports_error\<close> says that the compiler
  passed an error to its callback or that the compilation has errors; \<open>propagates\<close>
  relates the promise of a build to the report of the compiler.
\<close>

definition rejected :: "'a promise \<Rightarrow> bool" where
  "rejected p = (case p of Rejected r \<Rightarrow> True | _ \<Rightarrow> False)"

definition reports_error :: "string option \<Rightarrow> compile_stats option \<Rightarrow> bool" where
  "reports_error err result =
     (err \<noteq> None \<or> (case result of Some st \<Rightarrow> hasErrors st | None \<Rightarrow> False))"

definition propagates ::
  "unit promise \<Rightarrow> string option \<times> compile_stats option \<Rightarrow> bool" where
  "propagates p report =
     (case report of (err, result) \<Rightarrow>
        (rejected p \<longleftrightarrow> reports_error err result)
        \<and> (err = None \<and> reports_error err result \<longrightarrow>
             p = Rejected (CompilationErrors (join_newline (compilation_errors (the result)))))
        \<and> (\<not> rejected p \<longrightarrow> p = Fulfilled ()))"

text \<open>
  \<open>logged w given passed\<close> is the log \<open>w\<close> after one more call of the enhancer, with
  the argument \<open>given\<close>, and one more call of the backend, with the argument \<open>passed\<close>.
\<close>

definition logged :: "'c world \<Rightarrow> 'c \<Rightarrow> 'c \<Rightarrow> 'c world" where
  "logged w given passed =
     w\<lparr> enhancer_calls := enhancer_calls w @ [given],
        backend_calls := backend_calls w @ [passed] \<rparr>"

definition empty_world :: "'c world" where
  "empty_world = \<lparr> enhancer_calls = [], backend_calls = [] \<rparr>"

text \<open>
  The expressions the adapters bind to \<open>outputPath\<close> and \<open>debugOutputPath\<close>, the list
  \<open>fixturesWithPaths\<close> as \<open>createMultiEntryEnvironmentConfig\<close> receives it, the result
  of a single Rsbuild build, and the configurations the Rsbuild adapter assembles.
\<close>

definition rspack_outputPath :: "string \<Rightarrow> string" where
  "rspack_outputPath fixturePath' =
     path_join [path_join [dirname fixturePath', ''dist''],
       replace_at_end matches_fixture_dot ''.output.js'' (basename fixturePath')]"

definition rspack_debugOutputPath :: "string \<Rightarrow> string" where
  "rspack_debugOutputPath fixturePath' =
     path_join [path_join [dirname fixturePath', ''dist''],
       replace_at_end matches_fixture_anychar ''.debug.js'' (basename fixturePath')]"

definition esbuild_outputPath :: "string \<Rightarrow> string" where
  "esbuild_outputPath fixturePath' =
     replace_at_end matches_fixture_anychar ''.output.js'' fixturePath'"

definition rspack_fixturesWithPaths ::
  "Fixture list \<Rightarrow> (string \<times> string \<times> string option) list" where
  "rspack_fixturesWithPaths fixtures =
     map (\<lambda>f. (fixturePath f, rspack_outputPath (fixturePath f),
                Some (rspack_debugOutputPath (fixturePath f)))) fixtures"

definition rspack_result :: "bool option \<Rightarrow> string \<Rightarrow> BuildResult" where
  "rspack_result debug fixturePath' =
     \<lparr> result_name = None,
       outputPath = rspack_outputPath fixturePath',
       debugOutputPath =
         (if truthy debug then Some (rspack_debugOutputPath fixturePath') else None) \<rparr>"

definition rspack_defaultConfig :: "bool option \<Rightarrow> string \<Rightarrow> rsbuild_config" where
  "rspack_defaultConfig debug fixturePath' =
     \<lparr> root = dirname fixturePath', rsbuild_mode = ''production'', dev_progressBar = False,
       environments = createEnvironmentConfig fixturePath' (rspack_outputPath fixturePath')
         (if truthy debug then Some (rspack_debugOutputPath fixturePath') else None) \<rparr>"

definition rspack_batchConfig ::
  "Fixture list \<Rightarrow> (string \<times> environment_config) list \<Rightarrow> rsbuild_config" where
  "rspack_batchConfig fixtures envs =
     \<lparr> root = dirname (fixturePath (hd fixtures)), rsbuild_mode = ''production'',
       dev_progressBar = False, environments = envs \<rparr>"

text \<open>
  Absolute paths in normal form: \<open>abs_path [d1, ..., dn]\<close> is \<open>/d1/.../dn\<close>, where no
  segment is empty, \<open>.\<close> or \<open>..\<close> or contains a separator. \<open>after_last_sep s\<close> is what
  follows the last separator of \<open>s\<close>.
\<close>

definition after_last_sep :: "string \<Rightarrow> string" where
  "after_last_sep s = rev (takeWhile (\<lambda>c. \<not> is_sep c) (rev s))"

definition plain_segment :: "string \<Rightarrow> bool" where
  "plain_segment s = (s \<noteq> [] \<and> list_all (\<lambda>c. \<not> is_sep c) s \<and> s \<noteq> ''.'' \<and> s \<noteq> ''..'')"

definition abs_path :: "string list \<Rightarrow> string" where
  "abs_path segs = concat (map (\<lambda>s. CHR ''/'' # s) segs)"

text \<open>Decimal digits, and names that end in one.\<close>

definition is_digit :: "char \<Rightarrow> bool" where
  "is_digit c = (c \<in> set ''0123456789'')"

definition ends_in_digit :: "string \<Rightarrow> bool" where
  "ends_in_digit k = (k \<noteq> [] \<and> is_digit (last k))"

text \<open>Inputs of the examples.\<close>

definition fixtures_ab :: "(string \<times> string) list" where
  "fixtures_ab =
     [(''/pkg/monosize/a.fixture.js'', ''/pkg/monosize/a.output.js''),
      (''/pkg/monosize/b.fixture.js'', ''/pkg/monosize/b.output.js'')]"

definition failing_compiler :: webpack_backend where
  "failing_compiler config =
     (None, Some \<lparr> hasErrors = True,
                    compilation_errors = [''Module not found'', ''Parse error''] \<rparr>)"

definition fixtures_named_ab :: "Fixture list" where
  "fixtures_named_ab =
     [\<lparr> fixturePath = ''/pkg/monosize/a.fixture.js'', name = ''a'' \<rparr>,
      \<lparr> fixturePath = ''/pkg/monosize/b.fixture.js'', name = ''b'' \<rparr>]"

definition fixtures_widget :: "(string \<times> string) list" where
  "fixtures_widget =
     [(''/pkg/o/other.fixture.js'', ''/pkg/o/other.js''),
      (''/pkg/a/widget.fixture.js'', ''/pkg/a/widget.js''),
      (''/pkg/b/widget.fixture.js'', ''/pkg/b/widget.js'')]"

definition fixtures_widget_1 :: "(string \<times> string) list" where
  "fixtures_widget_1 =
     [(''/pkg/x/widget.fixture.js'', ''/pkg/x/widget.js''),
      (''/pkg/y/widget.fixture.js'', ''/pkg/y/widget.js''),
      (''/pkg/z/widget_1.fixture.js'', ''/pkg/z/widget_1.js''),
      (''/pkg/v/widget_1.fixture.js'', ''/pkg/v/widget_1.js'')]"

definition disable_pathinfo :: "webpack_config \<Rightarrow> webpack_config" where
  "disable_pathinfo config =
     config\<lparr> output_settings := (output_settings config)\<lparr> pathinfo := Some False \<rparr> \<rparr>"

definition quiet_compiler :: webpack_backend where
  "quiet_compiler config = (None, Some \<lparr> hasErrors = False, compilation_errors = [] \<rparr>)"

section \<open>The examples, evaluated\<close>

lemma rspack_outputPath_a:
  "rspack_outputPath ''/pkg/monosize/a.fixture.js'' = ''/pkg/monosize/dist/a.output.js''"
  by code_simp
lemma rspack_outputPath_b:
  "rspack_outputPath ''/pkg/monosize/b.fixture.js'' = ''/pkg/monosize/dist/b.output.js''"
  by code_simp
lemma rspack_debugOutputPath_a:
  "rspack_debugOutputPath ''/pkg/monosize/a.fixture.js'' = ''/pkg/monosize/dist/a.debug.js''"
  by code_simp
lemma rspack_debugOutputPath_b:
  "rspack_debugOutputPath ''/pkg/monosize/b.fixture.js'' = ''/pkg/monosize/dist/b.debug.js''"
  by code_simp
lemma esbuild_outputPath_a:
  "esbuild_outputPath ''/pkg/monosize/a.fixture.js'' = ''/pkg/monosize/a.output.js''"
  by code_simp
lemma esbuild_outputPath_b:
  "esbuild_outputPath ''/pkg/monosize/b.fixture.js'' = ''/pkg/monosize/b.output.js''"
  by code_simp
lemma dirname_dist_a:
  "dirname ''/pkg/monosize/dist/a.output.js'' = ''/pkg/monosize/dist''"
  by code_simp
lemma dirname_a:
  "dirname ''/pkg/monosize/a.output.js'' = ''/pkg/monosize''"
  by code_simp
lemma dirname_fixture_a:
  "dirname ''/pkg/monosize/a.fixture.js'' = ''/pkg/monosize''"
  by code_simp

lemma entryKey_other: "entryKey ''/pkg/o/other.js'' = ''other''"
  by code_simp
lemma entryKey_widget_a: "entryKey ''/pkg/a/widget.js'' = ''widget''"
  by code_simp
lemma entryKey_widget_b: "entryKey ''/pkg/b/widget.js'' = ''widget''"
  by code_simp
lemma string_of_nat_2: "string_of_nat 2 = ''2''"
  by code_simp

lemma entryNames_widget:
  "entryNames fixtures_widget 0 [] = [''other'', ''widget'', ''widget_2'']"
  by (simp add: fixtures_widget_def entryName_of_def entryKey_other entryKey_widget_a
        entryKey_widget_b string_of_nat_2 Let_def numeral_2_eq_2 [symmetric])

section \<open>The path library on normal absolute paths\<close>

lemma split_sep_nonempty: "split_sep s \<noteq> []"
  by (induction s) (auto split: list.splits)

lemma split_sep_append_plain:
  "list_all (\<lambda>c. \<not> is_sep c) s \<Longrightarrow>
   split_sep (s @ t) = (s @ hd (split_sep t)) # tl (split_sep t)"
proof (induction s)
  case Nil
  then show ?case using split_sep_nonempty [of t] by (cases "split_sep t") simp_all
next
  case (Cons c s)
  then show ?case by simp
qed

lemma split_sep_abs_path:
  "list_all plain_segment segs \<Longrightarrow> split_sep (abs_path segs) = [] # segs"
proof (induction segs)
  case Nil
  then show ?case by (simp add: abs_path_def)
next
  case (Cons s segs)
  then have ih: "split_sep (abs_path segs) = [] # segs" by simp
  from Cons.prems have s: "list_all (\<lambda>c. \<not> is_sep c) s" by (simp add: plain_segment_def)
  have "abs_path (s # segs) = CHR ''/'' # s @ abs_path segs" by (simp add: abs_path_def)
  then show ?case
    by (simp add: split_sep_append_plain [OF s] ih is_sep_def)
qed

lemma normalizeSegments_plain:
  "list_all plain_segment segs \<Longrightarrow> normalizeSegments allow res segs = res @ segs"
  by (induction segs arbitrary: res) (auto simp: plain_segment_def)

lemma join_sep_abs_path:
  "segs \<noteq> [] \<Longrightarrow> CHR ''/'' # join_sep segs = abs_path segs"
proof (induction segs rule: join_sep.induct)
  case 1
  then show ?case by simp
next
  case (2 s)
  then show ?case by (simp add: abs_path_def)
next
  case (3 s t ss)
  then show ?case by (simp add: abs_path_def)
qed

lemma join_sep_empty_iff: "list_all plain_segment segs \<Longrightarrow> join_sep segs = [] \<longleftrightarrow> segs = []"
  by (induction segs rule: join_sep.induct) (auto simp: plain_segment_def)

lemma abs_path_last:
  "list_all plain_segment segs \<Longrightarrow> segs \<noteq> [] \<Longrightarrow>
   abs_path segs \<noteq> [] \<and> hd (abs_path segs) = CHR ''/'' \<and> \<not> is_sep (last (abs_path segs))"
proof (induction segs rule: rev_induct)
  case Nil
  then show ?case by simp
next
  case (snoc s segs)
  then have s: "s \<noteq> []" "list_all (\<lambda>c. \<not> is_sep c) s" by (simp_all add: plain_segment_def)
  then have l: "\<not> is_sep (last s)" by (simp add: list_all_iff)
  have a: "abs_path (segs @ [s]) = abs_path segs @ CHR ''/'' # s" by (simp add: abs_path_def)
  have h: "hd (abs_path (segs @ [s])) = CHR ''/''"
    by (cases segs) (simp_all add: abs_path_def)
  show ?case using s l h by (simp add: a)
qed

lemma normalize_abs_path:
  assumes "list_all plain_segment segs" "segs \<noteq> []"
  shows "normalize (abs_path segs) = abs_path segs"
proof -
  from abs_path_last [OF assms] have ne: "abs_path segs \<noteq> []"
    and hd: "hd (abs_path segs) = CHR ''/''" and last: "\<not> is_sep (last (abs_path segs))"
    by simp_all
  have j: "join_sep segs \<noteq> []" using join_sep_empty_iff [OF assms(1)] assms(2) by simp
  show ?thesis
    using ne hd last j
    by (simp add: normalize_def Let_def split_sep_abs_path [OF assms(1)]
          normalizeSegments_plain [OF assms(1)] is_sep_def join_sep_abs_path [OF assms(2)])
qed

lemma dirname_abs_path:
  assumes "list_all plain_segment segs" "plain_segment file"
  shows "dirname (abs_path (segs @ [file])) = (if segs = [] then ''/'' else abs_path segs)"
proof -
  from assms(2) have f: "file \<noteq> []" "list_all (\<lambda>c. \<not> is_sep c) file"
    by (simp_all add: plain_segment_def)
  then have fl: "\<not> is_sep (last file)" by (simp add: list_all_iff)
  have dw: "dropWhile is_sep (rev file @ t) = rev file @ t" for t
    using f fl by (cases "rev file") (auto simp: last_rev hd_rev)
  have dn: "dropWhile (\<lambda>c. \<not> is_sep c) (rev file @ t) = dropWhile (\<lambda>c. \<not> is_sep c) t" for t
    using f(2) by (simp add: dropWhile_append list_all_iff)
  have hs: "is_sep (CHR ''/'')" by (simp add: is_sep_def)
  show ?thesis
  proof (cases segs)
    case Nil
    have p: "abs_path ([] @ [file]) = CHR ''/'' # file" by (simp add: abs_path_def)
    have r: "dropWhile (\<lambda>c. \<not> is_sep c) (dropWhile is_sep (rev file)) = []"
      using dw [of "[]"] dn [of "[]"] by simp
    show ?thesis
      unfolding Nil p dirname_def Let_def by (simp add: r hs)
  next
    case (Cons s ss)
    from assms(1) have sne: "s \<noteq> []" by (simp add: Cons plain_segment_def)
    define q where "q = s @ abs_path ss"
    have qne: "q \<noteq> []" using sne by (simp add: q_def)
    have a: "abs_path segs = CHR ''/'' # q" by (simp add: Cons abs_path_def q_def)
    have p: "abs_path (segs @ [file]) = CHR ''/'' # q @ CHR ''/'' # file"
      using a by (simp add: abs_path_def)
    have r1: "dropWhile is_sep (rev file @ CHR ''/'' # rev q) = rev file @ CHR ''/'' # rev q"
      by (rule dw)
    have r2: "dropWhile (\<lambda>c. \<not> is_sep c) (rev file @ CHR ''/'' # rev q) = CHR ''/'' # rev q"
      using dn [of "CHR ''/'' # rev q"] by (simp add: hs)
    have segs: "segs \<noteq> []" by (simp add: Cons)
    show ?thesis
      unfolding p dirname_def Let_def using qne segs by (simp add: r1 r2 a hs)
  qed
qed

lemma abs_path_snoc: "abs_path (segs @ [s]) = abs_path segs @ CHR ''/'' # s"
  by (simp add: abs_path_def)

lemma abs_path_nonempty: "list_all plain_segment segs \<Longrightarrow> segs \<noteq> [] \<Longrightarrow> abs_path segs \<noteq> []"
  using abs_path_last by blast

lemma path_join_plain:
  assumes "list_all plain_segment segs" "segs \<noteq> []" "plain_segment f"
  shows "path_join [abs_path segs, f] = abs_path (segs @ [f])"
proof -
  have ne: "abs_path segs \<noteq> []" using assms(1,2) by (rule abs_path_nonempty)
  have f: "f \<noteq> []" using assms(3) by (simp add: plain_segment_def)
  have j: "join_sep (filter (\<lambda>a. a \<noteq> []) [abs_path segs, f]) = abs_path (segs @ [f])"
    using ne f by (simp add: abs_path_snoc)
  have all: "list_all plain_segment (segs @ [f])" using assms by simp
  have n: "normalize (abs_path (segs @ [f])) = abs_path (segs @ [f])"
    by (rule normalize_abs_path [OF all]) simp
  have ne2: "abs_path (segs @ [f]) \<noteq> []" by (simp add: abs_path_snoc)
  show ?thesis
    unfolding path_join_def j Let_def using ne2 n by simp
qed

lemma plain_dist: "plain_segment ''dist''"
  by (simp add: plain_segment_def is_sep_def)

lemma path_join_root_dist: "path_join [''/'', ''dist''] = ''/dist''"
  by code_simp

lemma path_join_dirname_dist:
  assumes "list_all plain_segment segs" "plain_segment file"
  shows "path_join [dirname (abs_path (segs @ [file])), ''dist''] = abs_path (segs @ [''dist''])"
proof (cases "segs = []")
  case True
  then show ?thesis
    using dirname_abs_path [OF assms] by (simp add: path_join_root_dist abs_path_def)
next
  case False
  then show ?thesis
    using dirname_abs_path [OF assms] path_join_plain [OF assms(1) False plain_dist] by simp
qed

lemma plain_with_suffix:
  assumes "list_all (\<lambda>c. \<not> is_sep c) stem"
  shows "plain_segment (stem @ ''.fixture.js'')"
    and "plain_segment (stem @ ''.output.js'')"
    and "plain_segment (stem @ ''.debug.js'')"
  using assms by (auto simp: plain_segment_def is_sep_def append_eq_Cons_conv)

lemma after_last_sep_plain:
  "list_all (\<lambda>c. \<not> is_sep c) stem \<Longrightarrow> after_last_sep (abs_path segs @ CHR ''/'' # stem) = stem"
proof -
  assume "list_all (\<lambda>c. \<not> is_sep c) stem"
  then have t: "takeWhile (\<lambda>c. \<not> is_sep c) (rev stem @ CHR ''/'' # r) = rev stem" for r
    by (subst takeWhile_append2) (auto simp: list_all_iff is_sep_def)
  show ?thesis
    by (simp add: after_last_sep_def t)
qed

section \<open>The adapters and the runs in closed form\<close>

lemma compiler_callback_Pending:
  "compiler_callback err result Pending =
     (case err of
        Some e \<Rightarrow> Rejected (CompilerError e)
      | None \<Rightarrow>
          (case result of
             Some st \<Rightarrow>
               if hasErrors st
               then Rejected (CompilationErrors (join_newline (compilation_errors st)))
               else Fulfilled ()
           | None \<Rightarrow> Fulfilled ()))"
  by (simp add: compiler_callback_def reject_def resolve_def Let_def split: option.splits)

lemma compiler_callback_propagates:
  "propagates (compiler_callback err result Pending) (err, result)"
  by (simp add: propagates_def compiler_callback_Pending rejected_def reports_error_def
        split: option.splits)

lemma createMultiEntryWebpackConfig_nonempty:
  "fixtures \<noteq> [] \<Longrightarrow>
   \<exists>cfg. createMultiEntryWebpackConfig fixtures debug = Inr cfg
     \<and> path (output_settings cfg) = dirname (snd (hd fixtures))
     \<and> entry cfg = EntryMap (fst (entry_loop fixtures 0 ([], [])))"
  by (cases fixtures)
     (simp_all add: createMultiEntryWebpackConfig_def Let_def base_config.extend_def
        webpack_config.fields_def)

lemma runWebpack_fst:
  "fst (runWebpack enhanceConfig webpack fp op debug w) =
     compiler_callback (fst (webpack (enhanceConfig (createWebpackConfig fp op debug))))
       (snd (webpack (enhanceConfig (createWebpackConfig fp op debug)))) Pending"
  by (simp add: runWebpack_def call_enhancer_def call_backend_def split: prod.splits)

lemma runWebpackMultiEntry_fst:
  "createMultiEntryWebpackConfig fixtures debug = Inr cfg \<Longrightarrow>
   fst (runWebpackMultiEntry enhanceConfig webpack fixtures debug w) =
     compiler_callback (fst (webpack (enhanceConfig cfg)))
       (snd (webpack (enhanceConfig cfg))) Pending"
  by (simp add: runWebpackMultiEntry_def call_enhancer_def call_backend_def split: prod.splits)

lemma runWebpack_snd:
  "snd (runWebpack enhanceConfig webpack fp op debug w) =
     w\<lparr> enhancer_calls := enhancer_calls w @ [createWebpackConfig fp op debug],
        backend_calls := backend_calls w @ [enhanceConfig (createWebpackConfig fp op debug)] \<rparr>"
  by (simp add: runWebpack_def call_enhancer_def call_backend_def split: prod.splits)

lemma runWebpackMultiEntry_snd:
  "createMultiEntryWebpackConfig fixtures debug = Inr cfg \<Longrightarrow>
   snd (runWebpackMultiEntry enhanceConfig webpack fixtures debug w) =
     w\<lparr> enhancer_calls := enhancer_calls w @ [cfg],
        backend_calls := backend_calls w @ [enhanceConfig cfg] \<rparr>"
  by (simp add: runWebpackMultiEntry_def call_enhancer_def call_backend_def split: prod.splits)

lemma createMultiEntryEnvironmentConfig_nonempty:
  "fixtures \<noteq> [] \<Longrightarrow>
   \<exists>envs. createMultiEntryEnvironmentConfig fixtures debug = Inr envs
     \<and> envs \<noteq> []
     \<and> list_all (\<lambda>e. distPath_root (env_output (snd e)) = dirname (fst (snd (hd fixtures)))) envs"
  by (cases fixtures) (simp_all add: createMultiEntryEnvironmentConfig_def Let_def)

lemma rspack_buildFixture_snd:
  "snd (rspack_buildFixture cb rsbuild debug fp w) =
     logged w
       \<lparr> root = dirname fp, rsbuild_mode = ''production'', dev_progressBar = False,
         environments = createEnvironmentConfig fp (rspack_outputPath fp)
           (if truthy debug then Some (rspack_debugOutputPath fp) else None) \<rparr>
       (cb \<lparr> root = dirname fp, rsbuild_mode = ''production'', dev_progressBar = False,
         environments = createEnvironmentConfig fp (rspack_outputPath fp)
           (if truthy debug then Some (rspack_debugOutputPath fp) else None) \<rparr>)"
  by (simp add: rspack_buildFixture_def call_enhancer_def call_backend_def Let_def logged_def
        rspack_outputPath_def rspack_debugOutputPath_def split: prod.splits option.splits)

lemma rspack_buildFixtures_snd:
  assumes "createMultiEntryEnvironmentConfig (rspack_fixturesWithPaths fixtures) debug = Inr envs"
  shows "snd (rspack_buildFixtures cb rsbuild debug fixtures w) =
     logged w
       \<lparr> root = dirname (fixturePath (hd fixtures)), rsbuild_mode = ''production'',
         dev_progressBar = False, environments = envs \<rparr>
       (cb \<lparr> root = dirname (fixturePath (hd fixtures)), rsbuild_mode = ''production'',
         dev_progressBar = False, environments = envs \<rparr>)"
proof (cases fixtures)
  case Nil
  with assms show ?thesis
    by (simp add: createMultiEntryEnvironmentConfig_def rspack_fixturesWithPaths_def)
next
  case (Cons f fs)
  show ?thesis
    using assms
    by (simp add: Cons rspack_buildFixtures_def rspack_fixturesWithPaths_def
        rspack_outputPath_def rspack_debugOutputPath_def Let_def comp_def
        call_enhancer_def call_backend_def logged_def
        split: prod.splits option.splits)
qed

lemma rspack_buildFixture_fst:
  "fst (rspack_buildFixture cb rsbuild debug fp w) =
     (case rsbuild (cb (rspack_defaultConfig debug fp)) of
        Some e \<Rightarrow> Inl e
      | None \<Rightarrow> Inr (rspack_result debug fp))"
  by (simp add: rspack_buildFixture_def call_enhancer_def call_backend_def Let_def
        rspack_result_def rspack_defaultConfig_def
        rspack_outputPath_def rspack_debugOutputPath_def split: prod.splits option.splits)

lemma rspack_buildFixtures_fst:
  assumes "createMultiEntryEnvironmentConfig (rspack_fixturesWithPaths fixtures) debug = Inr envs"
  shows "fst (rspack_buildFixtures cb rsbuild debug fixtures w) =
     (case rsbuild (cb (rspack_batchConfig fixtures envs)) of
        Some e \<Rightarrow> Inl e
      | None \<Rightarrow>
          Inr (map (\<lambda>f. (rspack_result debug (fixturePath f))
                           \<lparr> result_name := Some (name f) \<rparr>) fixtures))"
proof (cases fixtures)
  case Nil
  with assms show ?thesis
    by (simp add: createMultiEntryEnvironmentConfig_def rspack_fixturesWithPaths_def)
next
  case (Cons f fs)
  show ?thesis
    using assms
    by (simp add: Cons rspack_buildFixtures_def rspack_fixturesWithPaths_def rspack_batchConfig_def
        rspack_outputPath_def rspack_debugOutputPath_def rspack_result_def Let_def comp_def
        call_enhancer_def call_backend_def
        split: prod.splits option.splits)
qed

lemma rspack_buildFixtures_empty:
  "rspack_buildFixtures cb rsbuild debug [] w = (Inl TypeError, w)"
  by (simp add: rspack_buildFixtures_def)

lemma rspack_fixturesWithPaths_nonempty:
  "fixtures \<noteq> [] \<Longrightarrow> rspack_fixturesWithPaths fixtures \<noteq> []"
  by (simp add: rspack_fixturesWithPaths_def)

lemma rspack_environments_nonempty:
  assumes "fixtures \<noteq> []"
  shows "\<exists>envs. createMultiEntryEnvironmentConfig (rspack_fixturesWithPaths fixtures) debug
            = Inr envs
          \<and> envs \<noteq> []
          \<and> list_all (\<lambda>e. distPath_root (env_output (snd e))
                            = dirname (rspack_outputPath (fixturePath (hd fixtures)))) envs"
proof -
  have hd: "fst (snd (hd (rspack_fixturesWithPaths fixtures)))
              = rspack_outputPath (fixturePath (hd fixtures))"
    using assms by (cases fixtures) (simp_all add: rspack_fixturesWithPaths_def)
  show ?thesis
    using createMultiEntryEnvironmentConfig_nonempty
      [OF rspack_fixturesWithPaths_nonempty [OF assms], of debug]
    by (simp add: hd)
qed

lemma esbuild_buildFixture_eq:
  "esbuild_buildFixture runEsbuild cb fp quiet debug =
     (case runEsbuild cb fp (esbuild_outputPath fp) quiet of
        Some e \<Rightarrow> Inl e
      | None \<Rightarrow> Inr \<lparr> result_name = None, outputPath = esbuild_outputPath fp,
                      debugOutputPath = None \<rparr>)"
  by (simp add: esbuild_buildFixture_def esbuild_outputPath_def Let_def split: option.splits)

lemma esbuild_buildFixtures_eq:
  "esbuild_buildFixtures runEsbuildMultiEntry cb fixtures quiet debug =
     (case runEsbuildMultiEntry cb
             (map (\<lambda>f. (fixturePath f, esbuild_outputPath (fixturePath f))) fixtures) quiet of
        Some e \<Rightarrow> Inl e
      | None \<Rightarrow>
          Inr (map (\<lambda>f. \<lparr> result_name = Some (name f),
                           outputPath = esbuild_outputPath (fixturePath f),
                           debugOutputPath = None \<rparr>) fixtures))"
  by (simp add: esbuild_buildFixtures_def esbuild_outputPath_def Let_def comp_def
        split: option.splits)

lemma rspack_environments_ab:
  "\<exists>envs. createMultiEntryEnvironmentConfig (rspack_fixturesWithPaths fixtures_named_ab) debug
            = Inr envs"
  using rspack_environments_nonempty [of fixtures_named_ab debug]
  by (auto simp: fixtures_named_ab_def)

section \<open>Path derivation\<close>

lemma replace_anychar_suffix:
  "replace_at_end matches_fixture_anychar r (pre @ ''.fixture.js'') = pre @ r"
  by (simp add: replace_at_end_def matches_fixture_anychar_def line_terminator_def)

lemma replace_dot_suffix:
  "replace_at_end matches_fixture_dot r (pre @ ''.fixture.js'') = pre @ r"
  by (simp add: replace_at_end_def matches_fixture_dot_def)

lemma basename_fixture_suffix:
  "basename (pre @ ''.fixture.js'') = after_last_sep pre @ ''.fixture.js''"
  by (simp add: basename_def last_component_def after_last_sep_def is_sep_def)

lemma esbuild_outputPath_suffix:
  "esbuild_outputPath (pre @ ''.fixture.js'') = pre @ ''.output.js''"
  by (simp add: esbuild_outputPath_def replace_anychar_suffix)

lemma rspack_outputPath_suffix:
  "rspack_outputPath (pre @ ''.fixture.js'') =
     path_join [path_join [dirname (pre @ ''.fixture.js''), ''dist''],
       after_last_sep pre @ ''.output.js'']"
  unfolding rspack_outputPath_def basename_fixture_suffix replace_dot_suffix ..

lemma rspack_debugOutputPath_suffix:
  "rspack_debugOutputPath (pre @ ''.fixture.js'') =
     path_join [path_join [dirname (pre @ ''.fixture.js''), ''dist''],
       after_last_sep pre @ ''.debug.js'']"
  unfolding rspack_debugOutputPath_def basename_fixture_suffix replace_anychar_suffix ..

lemma rspack_outputPath_plain:
  assumes "list_all plain_segment segs" "list_all (\<lambda>c. \<not> is_sep c) stem"
  shows "rspack_outputPath (abs_path segs @ ''/'' @ stem @ ''.fixture.js'')
           = abs_path segs @ ''/dist/'' @ stem @ ''.output.js''"
proof -
  have p: "abs_path segs @ ''/'' @ stem @ ''.fixture.js'' = abs_path (segs @ [stem @ ''.fixture.js''])"
    by (simp add: abs_path_snoc)
  have p': "abs_path segs @ ''/'' @ stem @ ''.fixture.js'' = (abs_path segs @ CHR ''/'' # stem) @ ''.fixture.js''"
    by simp
  have d: "list_all plain_segment (segs @ [''dist''])" using assms(1) plain_dist by simp
  have "rspack_outputPath (abs_path segs @ ''/'' @ stem @ ''.fixture.js'')
      = path_join [path_join [dirname (abs_path (segs @ [stem @ ''.fixture.js''])), ''dist''],
          stem @ ''.output.js'']"
    unfolding p' rspack_outputPath_suffix after_last_sep_plain [OF assms(2)]
    by (simp add: abs_path_snoc)
  also have "\<dots> = path_join [abs_path (segs @ [''dist'']), stem @ ''.output.js'']"
    unfolding path_join_dirname_dist [OF assms(1) plain_with_suffix(1) [OF assms(2)]] ..
  also have "\<dots> = abs_path ((segs @ [''dist'']) @ [stem @ ''.output.js''])"
    by (rule path_join_plain [OF d _ plain_with_suffix(2) [OF assms(2)]]) simp
  finally show ?thesis by (simp add: abs_path_def)
qed

lemma rspack_debugOutputPath_plain:
  assumes "list_all plain_segment segs" "list_all (\<lambda>c. \<not> is_sep c) stem"
  shows "rspack_debugOutputPath (abs_path segs @ ''/'' @ stem @ ''.fixture.js'')
           = abs_path segs @ ''/dist/'' @ stem @ ''.debug.js''"
proof -
  have p': "abs_path segs @ ''/'' @ stem @ ''.fixture.js'' = (abs_path segs @ CHR ''/'' # stem) @ ''.fixture.js''"
    by simp
  have d: "list_all plain_segment (segs @ [''dist''])" using assms(1) plain_dist by simp
  have "rspack_debugOutputPath (abs_path segs @ ''/'' @ stem @ ''.fixture.js'')
      = path_join [path_join [dirname (abs_path (segs @ [stem @ ''.fixture.js''])), ''dist''],
          stem @ ''.debug.js'']"
    unfolding p' rspack_debugOutputPath_suffix after_last_sep_plain [OF assms(2)]
    by (simp add: abs_path_snoc)
  also have "\<dots> = path_join [abs_path (segs @ [''dist'']), stem @ ''.debug.js'']"
    unfolding path_join_dirname_dist [OF assms(1) plain_with_suffix(1) [OF assms(2)]] ..
  also have "\<dots> = abs_path ((segs @ [''dist'']) @ [stem @ ''.debug.js''])"
    by (rule path_join_plain [OF d _ plain_with_suffix(3) [OF assms(2)]]) simp
  finally show ?thesis by (simp add: abs_path_def)
qed

text \<open>
  C2, amended. For a fixture path \<open>pre @ ''.fixture.js''\<close> the esbuild adapter returns
  the path with the suffix replaced by \<open>.output.js\<close>, in the same directory, and no
  debug path. The Rsbuild adapter does not keep the directory: its release path is
  \<open>path.join(path.join(path.dirname(p), 'dist'), b)\<close>, where \<open>b\<close> is the basename with the
  suffix replaced by \<open>.output.js\<close>, and its debug path, returned exactly when debug is
  \<open>true\<close>, is the same with \<open>.debug.js\<close>. For a normal absolute path
  \<open>/d1/.../dn/stem.fixture.js\<close> these are \<open>/d1/.../dn/dist/stem.output.js\<close> and
  \<open>/d1/.../dn/dist/stem.debug.js\<close>. Both derivations are functions of the path string
  alone.
\<close>

theorem path_derivation_per_backend:
  assumes "list_all plain_segment segs" and "list_all (\<lambda>c. \<not> is_sep c) stem"
  shows "(\<forall>r. esbuild_buildFixture runEsbuild ecb (pre @ ''.fixture.js'') quiet edebug = Inr r
            \<longrightarrow> outputPath r = pre @ ''.output.js'' \<and> debugOutputPath r = None)
       \<and> (\<forall>r. fst (rspack_buildFixture cb rsbuild debug (pre @ ''.fixture.js'') w) = Inr r
            \<longrightarrow> outputPath r
                  = path_join [path_join [dirname (pre @ ''.fixture.js''), ''dist''],
                      after_last_sep pre @ ''.output.js'']
                \<and> debugOutputPath r
                  = (if debug = Some True
                     then Some (path_join [path_join [dirname (pre @ ''.fixture.js''), ''dist''],
                                  after_last_sep pre @ ''.debug.js''])
                     else None))
       \<and> (\<forall>r. fst (rspack_buildFixture cb rsbuild debug
                   (abs_path segs @ ''/'' @ stem @ ''.fixture.js'') w) = Inr r
            \<longrightarrow> outputPath r = abs_path segs @ ''/dist/'' @ stem @ ''.output.js''
                \<and> debugOutputPath r
                  = (if debug = Some True
                     then Some (abs_path segs @ ''/dist/'' @ stem @ ''.debug.js'')
                     else None))"
proof (intro conjI allI impI)
  fix r
  assume "esbuild_buildFixture runEsbuild ecb (pre @ ''.fixture.js'') quiet edebug = Inr r"
  then have r: "r = \<lparr> result_name = None, outputPath = pre @ ''.output.js'',
                       debugOutputPath = None \<rparr>"
    by (auto simp: esbuild_buildFixture_eq esbuild_outputPath_suffix split: option.splits)
  show "outputPath r = pre @ ''.output.js''" by (simp add: r)
  show "debugOutputPath r = None" by (simp add: r)
next
  fix r
  assume "fst (rspack_buildFixture cb rsbuild debug (pre @ ''.fixture.js'') w) = Inr r"
  then have r: "r = rspack_result debug (pre @ ''.fixture.js'')"
    by (auto simp: rspack_buildFixture_fst split: option.splits)
  show "outputPath r
          = path_join [path_join [dirname (pre @ ''.fixture.js''), ''dist''],
              after_last_sep pre @ ''.output.js'']"
    by (simp add: r rspack_result_def rspack_outputPath_suffix)
  show "debugOutputPath r
          = (if debug = Some True
             then Some (path_join [path_join [dirname (pre @ ''.fixture.js''), ''dist''],
                          after_last_sep pre @ ''.debug.js''])
             else None)"
    by (simp add: r rspack_result_def rspack_debugOutputPath_suffix truthy_def)
next
  fix r
  assume "fst (rspack_buildFixture cb rsbuild debug
                   (abs_path segs @ ''/'' @ stem @ ''.fixture.js'') w) = Inr r"
  then have r: "r = rspack_result debug (abs_path segs @ ''/'' @ stem @ ''.fixture.js'')"
    by (auto simp: rspack_buildFixture_fst split: option.splits)
  show "outputPath r = abs_path segs @ ''/dist/'' @ stem @ ''.output.js''"
    unfolding r rspack_result_def using rspack_outputPath_plain [OF assms] by simp
  show "debugOutputPath r
          = (if debug = Some True
             then Some (abs_path segs @ ''/dist/'' @ stem @ ''.debug.js'')
             else None)"
    unfolding r rspack_result_def using rspack_debugOutputPath_plain [OF assms]
    by (simp add: truthy_def)
qed

lemma plain_pkg_monosize: "list_all plain_segment [''pkg'', ''monosize'']"
  by (simp add: plain_segment_def is_sep_def)

theorem path_derivation_per_backend_witness:
  "list_all plain_segment [''pkg'', ''monosize''] \<and> list_all (\<lambda>c. \<not> is_sep c) ''a''
   \<and> esbuild_buildFixture (\<lambda>c fp op q. None) (\<lambda>c. c) ''/pkg/monosize/a.fixture.js'' True None
       = Inr \<lparr> result_name = None, outputPath = ''/pkg/monosize/a.output.js'',
               debugOutputPath = None \<rparr>
   \<and> fst (rspack_buildFixture (\<lambda>c. c) (\<lambda>c. None) (Some True) ''/pkg/monosize/a.fixture.js''
            empty_world)
       = Inr \<lparr> result_name = None, outputPath = ''/pkg/monosize/dist/a.output.js'',
               debugOutputPath = Some ''/pkg/monosize/dist/a.debug.js'' \<rparr>"
proof -
  have s: "list_all (\<lambda>c. \<not> is_sep c) ''a''" by (simp add: is_sep_def)
  have e: "esbuild_buildFixture (\<lambda>c fp op q. None) (\<lambda>c. c) ''/pkg/monosize/a.fixture.js'' True None
       = Inr \<lparr> result_name = None, outputPath = esbuild_outputPath ''/pkg/monosize/a.fixture.js'',
               debugOutputPath = None \<rparr>"
    by (simp add: esbuild_buildFixture_eq)
  have r: "fst (rspack_buildFixture (\<lambda>c. c) (\<lambda>c. None) (Some True) ''/pkg/monosize/a.fixture.js''
            empty_world) = Inr (rspack_result (Some True) ''/pkg/monosize/a.fixture.js'')"
    by (simp add: rspack_buildFixture_fst)
  show ?thesis
    using plain_pkg_monosize s
      path_derivation_per_backend [OF plain_pkg_monosize s, of "\<lambda>c fp op q. None" "\<lambda>c. c"
        "''/pkg/monosize/a''" True None "\<lambda>c. c" "\<lambda>c. None" "Some True" empty_world]
    by (auto simp add: e r abs_path_def rspack_result_def truthy_def)
qed

theorem path_derivation_counterexample:
  "fst (rspack_buildFixture (\<lambda>c. c) (\<lambda>c. None) None ''/pkg/monosize/a.fixture.js'' empty_world)
     = Inr \<lparr> result_name = None, outputPath = ''/pkg/monosize/dist/a.output.js'',
             debugOutputPath = None \<rparr>
   \<and> ''/pkg/monosize/dist/a.output.js'' \<noteq> ''/pkg/monosize/a.output.js''
   \<and> dirname ''/pkg/monosize/dist/a.output.js'' \<noteq> dirname ''/pkg/monosize/a.fixture.js''"
  by (simp add: rspack_buildFixture_fst rspack_result_def truthy_def rspack_outputPath_a
        dirname_dist_a dirname_fixture_a)

section \<open>Entry keys of a batch\<close>

lemma entryNames_length: "length (entryNames fixtures index seenKeys) = length fixtures"
  by (induction fixtures arbitrary: index seenKeys) (simp_all add: Let_def)

lemma entryNames_nth:
  "j < length fixtures \<Longrightarrow>
   entryNames fixtures index seenKeys ! j =
     (if entryKey (snd (fixtures ! j))
           \<in> set seenKeys \<union> set (take j (entryNames fixtures index seenKeys))
      then entryKey (snd (fixtures ! j)) @ ''_'' @ string_of_nat (index + j)
      else entryKey (snd (fixtures ! j)))"
proof (induction fixtures arbitrary: index seenKeys j)
  case Nil
  then show ?case by simp
next
  case (Cons f fixtures)
  show ?case
  proof (cases j)
    case 0
    then show ?thesis by (simp add: Let_def entryName_of_def)
  next
    case (Suc k)
    with Cons.prems have k: "k < length fixtures" by simp
    show ?thesis
      using Cons.IH [OF k, of "Suc index" "List.insert (entryName_of seenKeys (snd f) index) seenKeys"]
      by (simp add: Suc Let_def)
  qed
qed

lemma entry_loop_entryNames:
  "fst (entry_loop fixtures index (entry', seenKeys)) =
     foldl (\<lambda>acc (entryName, fixture). assign entryName (fst fixture) acc) entry'
       (zip (entryNames fixtures index seenKeys) fixtures)"
proof (induction fixtures arbitrary: index entry' seenKeys)
  case Nil
  then show ?case by simp
next
  case (Cons f fixtures)
  obtain fp op where f: "f = (fp, op)" by (cases f)
  show ?case
    by (simp add: f entry_step_def Let_def Cons.IH)
qed

lemma seen_key_stays:
  assumes "i < j" "j < length fixtures"
    and "entryKey (snd (fixtures ! i)) = k"
  shows "k \<in> set (take j (entryNames fixtures 0 []))"
proof -
  let ?names = "entryNames fixtures 0 []"
  have i: "i < length fixtures" using assms by simp
  have len: "length ?names = length fixtures" by (rule entryNames_length)
  have sub: "set (take i ?names) \<subseteq> set (take j ?names)"
    using assms(1) by (simp add: set_take_subset_set_take)
  have ni: "?names ! i \<in> set (take j ?names)"
    using assms i len by (auto simp: in_set_conv_nth intro!: exI [of _ i])
  show ?thesis
  proof (cases "k \<in> set (take i ?names)")
    case True
    with sub show ?thesis by blast
  next
    case False
    then have "?names ! i = k"
      using entryNames_nth [OF i, of 0 "[]"] assms(3) by simp
    with ni show ?thesis by simp
  qed
qed

lemma digit_char_inj:
  "m < 10 \<Longrightarrow> n < 10 \<Longrightarrow> digit_char m = digit_char n \<Longrightarrow> m = n"
proof -
  assume "m < 10" "n < 10" "digit_char m = digit_char n"
  moreover have "distinct ''0123456789''" by simp
  ultimately show "m = n"
    unfolding digit_char_def by (simp add: nth_eq_iff_index_eq)
qed

lemma digit_char_is_digit: "n < 10 \<Longrightarrow> is_digit (digit_char n)"
  unfolding is_digit_def digit_char_def by (rule nth_mem) simp

lemma string_of_nat_digits:
  "string_of_nat n \<noteq> [] \<and> list_all is_digit (string_of_nat n)"
proof (induction n rule: string_of_nat.induct)
  case (1 n)
  show ?case
  proof (cases "n < 10")
    case True
    then show ?thesis
      by (simp add: string_of_nat.simps [of n] digit_char_is_digit)
  next
    case False
    then show ?thesis
      using "1.IH" by (simp add: string_of_nat.simps [of n] digit_char_is_digit)
  qed
qed

lemma string_of_nat_inj: "string_of_nat m = string_of_nat n \<Longrightarrow> m = n"
proof (induction m arbitrary: n rule: string_of_nat.induct)
  case (1 m)
  show ?case
  proof (cases "m < 10")
    case m: True
    show ?thesis
    proof (cases "n < 10")
      case True
      with m "1.prems" show ?thesis
        by (simp add: string_of_nat.simps [of m] string_of_nat.simps [of n] digit_char_inj)
    next
      case False
      with m "1.prems" string_of_nat_digits [of "n div 10"] show ?thesis
        by (simp add: string_of_nat.simps [of m] string_of_nat.simps [of n]
              Cons_eq_append_conv)
    qed
  next
    case m: False
    show ?thesis
    proof (cases "n < 10")
      case True
      with m "1.prems" string_of_nat_digits [of "m div 10"] show ?thesis
        by (simp add: string_of_nat.simps [of m] string_of_nat.simps [of n]
              append_eq_Cons_conv)
    next
      case False
      with m "1.prems" have eq: "string_of_nat (m div 10) = string_of_nat (n div 10)"
          and d: "digit_char (m mod 10) = digit_char (n mod 10)"
        by (simp_all add: string_of_nat.simps [of m] string_of_nat.simps [of n])
      from "1.IH" [OF m eq] have "m div 10 = n div 10" .
      moreover from d have "m mod 10 = n mod 10" by (intro digit_char_inj) simp_all
      ultimately show ?thesis by (metis div_mult_mod_eq)
    qed
  qed
qed

lemma underscore_not_digit: "list_all is_digit d \<Longrightarrow> CHR ''_'' \<notin> set d"
  by (auto simp: list_all_iff is_digit_def)

lemma prefix_before_sep:
  assumes "x \<notin> set xs" and "x \<notin> set xs'" and "xs @ x # ys = xs' @ x # ys'"
  shows "xs = xs'"
proof -
  have t: "takeWhile (\<lambda>c. c \<noteq> x) (zs @ x # ws) = zs" if "x \<notin> set zs" for zs ws
    using that by (auto simp add: takeWhile_tail takeWhile_eq_all_conv)
  have "takeWhile (\<lambda>c. c \<noteq> x) (xs @ x # ys) = takeWhile (\<lambda>c. c \<noteq> x) (xs' @ x # ys')"
    by (simp only: assms(3))
  then show ?thesis by (simp only: t [OF assms(1)] t [OF assms(2)])
qed

lemma indexed_name_inj:
  assumes "a @ ''_'' @ string_of_nat i = b @ ''_'' @ string_of_nat j"
  shows "i = j"
proof -
  have di: "CHR ''_'' \<notin> set (rev (string_of_nat i))"
    using string_of_nat_digits [of i] underscore_not_digit by simp
  have dj: "CHR ''_'' \<notin> set (rev (string_of_nat j))"
    using string_of_nat_digits [of j] underscore_not_digit by simp
  from assms have "rev (a @ ''_'' @ string_of_nat i) = rev (b @ ''_'' @ string_of_nat j)"
    by simp
  then have "rev (string_of_nat i) @ CHR ''_'' # rev a = rev (string_of_nat j) @ CHR ''_'' # rev b"
    by simp
  then have "rev (string_of_nat i) = rev (string_of_nat j)"
    by (rule prefix_before_sep [OF di dj])
  then have "string_of_nat i = string_of_nat j" by (simp only: rev_is_rev_conv)
  then show ?thesis by (rule string_of_nat_inj)
qed

lemma indexed_name_ends_in_digit: "ends_in_digit (k @ ''_'' @ string_of_nat j)"
  using string_of_nat_digits [of j]
  by (auto simp: ends_in_digit_def list_all_iff)

lemma entryNames_distinct:
  assumes "\<forall>f \<in> set fixtures. \<not> ends_in_digit (entryKey (snd f))"
  shows "distinct (entryNames fixtures 0 [])"
proof -
  let ?names = "entryNames fixtures 0 []"
  let ?k = "\<lambda>j. entryKey (snd (fixtures ! j))"
  have len: "length ?names = length fixtures" by (rule entryNames_length)
  have nth: "?names ! j = (if ?k j \<in> set (take j ?names)
                            then ?k j @ ''_'' @ string_of_nat j else ?k j)"
    if "j < length fixtures" for j
    using entryNames_nth [OF that, of 0 "[]"] by simp
  have plain: "\<not> ends_in_digit (?k j)" if "j < length fixtures" for j
    using assms that by simp
  have earlier: "?names ! i \<in> set (take j ?names)" if "i < j" "j < length fixtures" for i j
    using that len by (auto simp: in_set_conv_nth intro!: exI [of _ i])
  have neq: "?names ! i \<noteq> ?names ! j" if ij: "i < j" and j: "j < length fixtures" for i j
  proof
    assume eq: "?names ! i = ?names ! j"
    have i: "i < length fixtures" using ij j by simp
    show False
    proof (cases "?k j \<in> set (take j ?names)")
      case False
      then have nj: "?names ! j = ?k j" by (simp only: nth [OF j] if_False)
      have "?names ! j \<in> set (take j ?names)"
        using earlier [OF ij j] by (simp only: eq)
      then have "?k j \<in> set (take j ?names)" by (simp only: nj)
      with False show False by (rule notE)
    next
      case seen: True
      then have nj: "?names ! j = ?k j @ ''_'' @ string_of_nat j"
        by (simp only: nth [OF j] if_True)
      show False
      proof (cases "?k i \<in> set (take i ?names)")
        case True
        then have ni: "?names ! i = ?k i @ ''_'' @ string_of_nat i"
          by (simp only: nth [OF i] if_True)
        have "?k i @ ''_'' @ string_of_nat i = ?k j @ ''_'' @ string_of_nat j"
          using eq by (simp only: ni nj)
        then have "i = j" by (rule indexed_name_inj)
        with ij show False by simp
      next
        case False
        then have ni: "?names ! i = ?k i" by (simp only: nth [OF i] if_False)
        have "ends_in_digit (?names ! j)"
          by (simp only: nj) (rule indexed_name_ends_in_digit)
        then have "ends_in_digit (?names ! i)" by (simp only: eq)
        then have "ends_in_digit (?k i)" by (simp only: ni)
        with plain [OF i] show False by (rule notE)
      qed
    qed
  qed
  show ?thesis
    unfolding distinct_conv_nth len
  proof (intro allI impI)
    fix i j assume "i < length fixtures" "j < length fixtures" "i \<noteq> j"
    then consider "i < j" | "j < i" by linarith
    then show "?names ! i \<noteq> ?names ! j"
    proof cases
      case 1
      then show ?thesis using \<open>j < length fixtures\<close> by (rule neq)
    next
      case 2
      then have "?names ! j \<noteq> ?names ! i" using \<open>i < length fixtures\<close> by (rule neq)
      then show ?thesis by (rule not_sym)
    qed
  qed
qed

lemma foldl_assign_fresh:
  assumes "length names = length fixtures" and "distinct (map fst entry' @ names)"
  shows "foldl (\<lambda>acc (entryName, fixture). assign entryName (fst fixture) acc) entry'
           (zip names fixtures)
         = entry' @ zip names (map fst fixtures)"
  using assms
proof (induction names arbitrary: fixtures entry')
  case Nil
  then show ?case by simp
next
  case (Cons n names)
  then obtain f fs where f: "fixtures = f # fs" by (cases fixtures) auto
  from Cons.prems have fresh: "n \<notin> fst ` set entry'" by auto
  have upd: "assign n (fst f) entry' = entry' @ [(n, fst f)]"
    using fresh by (induction entry') (auto simp: assign_def)
  have l: "length names = length fs" using Cons.prems f by simp
  have d: "distinct (map fst (entry' @ [(n, fst f)]) @ names)" using Cons.prems by auto
  show ?case
    using Cons.IH [OF l d] by (simp add: f upd)
qed

text \<open>
  When no entry key of the batch ends in a decimal digit, as for output paths that end in
  \<open>.output.js\<close>, the names the webpack loop gives are pairwise distinct, and the entry
  map of the configuration has one entry per fixture, in input order.
\<close>

lemma webpack_entry_keys_unique:
  assumes "fixtures \<noteq> []"
    and "\<forall>f \<in> set fixtures. \<not> ends_in_digit (entryKey (snd f))"
  shows "\<exists>cfg. createMultiEntryWebpackConfig fixtures debug = Inr cfg
           \<and> entry cfg = EntryMap (zip (entryNames fixtures 0 []) (map fst fixtures))
           \<and> distinct (entryNames fixtures 0 [])
           \<and> length (entryNames fixtures 0 []) = length fixtures"
proof -
  obtain cfg where cfg: "createMultiEntryWebpackConfig fixtures debug = Inr cfg"
      "entry cfg = EntryMap (fst (entry_loop fixtures 0 ([], [])))"
    using createMultiEntryWebpackConfig_nonempty [OF assms(1), of debug] by blast
  have d: "distinct (entryNames fixtures 0 [])"
    by (rule entryNames_distinct [OF assms(2)])
  have l: "length (entryNames fixtures 0 []) = length fixtures"
    by (rule entryNames_length)
  have "fst (entry_loop fixtures 0 ([], []))
          = zip (entryNames fixtures 0 []) (map fst fixtures)"
    unfolding entry_loop_entryNames
    using foldl_assign_fresh [OF l, of "[]"] d by simp
  with cfg d l show ?thesis by simp
qed

lemma output_key_not_digit:
  "\<not> ends_in_digit (stem @ ''.output'')"
  by (simp add: ends_in_digit_def is_digit_def)

text \<open>
  C3. Two fixtures of one batch can end with the same entry key. The Rsbuild
  configuration has no disambiguation, so two fixtures with the same output basename
  leave one entry; and the index appended by the webpack configuration can itself be a
  key given before, so three fixtures leave two entries.
\<close>

theorem entry_keys_collide:
  "map_sum id (map (\<lambda>e. (fst e, source_entry (snd e))))
     (createMultiEntryEnvironmentConfig
        (rspack_fixturesWithPaths
           [\<lparr> fixturePath = ''/pkg/a/widget.fixture.js'', name = ''a'' \<rparr>,
            \<lparr> fixturePath = ''/pkg/b/widget.fixture.js'', name = ''b'' \<rparr>]) None)
     = Inr [(''default'', [(''widget.output'', ''/pkg/b/widget.fixture.js'')])]
   \<and> map_sum id entry
       (createMultiEntryWebpackConfig
          [(''/pkg/o/widget_2.fixture.js'', ''/pkg/o/widget_2.js''),
           (''/pkg/a/widget.fixture.js'', ''/pkg/a/widget.js''),
           (''/pkg/b/widget.fixture.js'', ''/pkg/b/widget.js'')] False)
     = Inr (EntryMap [(''widget_2'', ''/pkg/b/widget.fixture.js''),
                      (''widget'', ''/pkg/a/widget.fixture.js'')])"
  by code_simp

text \<open>
  C4, amended. Let two fixtures at the input indices \<open>i < j\<close> have the same entry key.
  The later one is named by that key followed by \<open>_\<close> and its own index \<open>j\<close> in the whole
  list (so \<open>widget_1\<close> only at index 1); the earlier one keeps the plain key when no
  fixture before it was given that name. These names are the keys of the entry map of
  the configuration.
\<close>

theorem tie_break_by_index:
  assumes "i < j" and "j < length fixtures"
    and "entryKey (snd (fixtures ! i)) = entryKey (snd (fixtures ! j))"
    and "entryKey (snd (fixtures ! i)) \<notin> set (take i (entryNames fixtures 0 []))"
  shows "entryNames fixtures 0 [] ! i = entryKey (snd (fixtures ! i))
       \<and> entryNames fixtures 0 [] ! j
           = entryKey (snd (fixtures ! j)) @ ''_'' @ string_of_nat j
       \<and> (\<exists>cfg. createMultiEntryWebpackConfig fixtures debug = Inr cfg
             \<and> entry cfg
                 = EntryMap (foldl (\<lambda>acc (entryName, fixture).
                                      assign entryName (fst fixture) acc) []
                               (zip (entryNames fixtures 0 []) fixtures)))"
proof -
  have i: "i < length fixtures" using assms(1,2) by simp
  have first: "entryNames fixtures 0 [] ! i = entryKey (snd (fixtures ! i))"
    using entryNames_nth [OF i, of 0 "[]"] assms(4) by simp
  have second: "entryNames fixtures 0 [] ! j
           = entryKey (snd (fixtures ! j)) @ ''_'' @ string_of_nat j"
    using entryNames_nth [OF assms(2), of 0 "[]"] seen_key_stays [OF assms(1,2,3)]
    by simp
  have "fixtures \<noteq> []" using assms(2) by auto
  then obtain cfg where cfg: "createMultiEntryWebpackConfig fixtures debug = Inr cfg"
      "entry cfg = EntryMap (fst (entry_loop fixtures 0 ([], [])))"
    using createMultiEntryWebpackConfig_nonempty [of fixtures debug] by blast
  from first second cfg show ?thesis
    by (simp add: entry_loop_entryNames)
qed

theorem tie_break_by_index_witness:
  "(1::nat) < 2 \<and> 2 < length fixtures_widget
   \<and> entryKey (snd (fixtures_widget ! 1)) = entryKey (snd (fixtures_widget ! 2))
   \<and> entryKey (snd (fixtures_widget ! 1)) \<notin> set (take 1 (entryNames fixtures_widget 0 []))
   \<and> entryNames fixtures_widget 0 [] ! 1 = ''widget''
   \<and> entryNames fixtures_widget 0 [] ! 2 = ''widget_2''"
proof -
  have a: "(1::nat) < 2" by simp
  have b: "2 < length fixtures_widget" by (simp add: fixtures_widget_def)
  have k1: "entryKey (snd (fixtures_widget ! 1)) = ''widget''"
    by (simp add: fixtures_widget_def entryKey_widget_a)
  have k2: "entryKey (snd (fixtures_widget ! 2)) = ''widget''"
    by (simp add: fixtures_widget_def entryKey_widget_b)
  have c: "entryKey (snd (fixtures_widget ! 1)) = entryKey (snd (fixtures_widget ! 2))"
    by (simp only: k1 k2)
  have d: "entryKey (snd (fixtures_widget ! 1)) \<notin> set (take 1 (entryNames fixtures_widget 0 []))"
    unfolding k1 entryNames_widget by simp
  show ?thesis
    using a b c d tie_break_by_index [OF a b c d, of False]
    unfolding k1 k2 string_of_nat_2 by simp
qed

theorem tie_break_counterexample:
  "entryNames fixtures_widget 0 [] = [''other'', ''widget'', ''widget_2'']
   \<and> entryNames (tl fixtures_widget) 0 [] = [''widget'', ''widget_1'']
   \<and> ''widget_2'' \<noteq> ''widget_1''
   \<and> entryNames fixtures_widget_1 0 []
       = [''widget'', ''widget_1'', ''widget_1_2'', ''widget_1_3'']"
  by code_simp

section \<open>The results of a build\<close>

text \<open>
  C5. The esbuild adapter, which has no debug output, never sets \<open>debugOutputPath\<close>: not
  in the result of a single build and in none of the results of a batch, which are as
  many as the fixtures. The Rsbuild adapter sets it if and only if \<open>debug\<close> is
  \<open>true\<close>: in the result of a single build and in every result of a batch, which is
  not empty and has one result per fixture. A build whose backend does not fail returns
  these results; in particular an Rsbuild build with \<open>debug\<close> set to \<open>true\<close> then
  yields the debug path of each of its fixtures.
\<close>

theorem debug_output_presence:
  "(\<forall>r. esbuild_buildFixture runEsbuild ecb fp quiet debug = Inr r
        \<longrightarrow> debugOutputPath r = None)
   \<and> (\<forall>rs. esbuild_buildFixtures runEsbuildMultiEntry ecb fixtures quiet debug = Inr rs
        \<longrightarrow> length rs = length fixtures
            \<and> list_all (\<lambda>r. debugOutputPath r = None) rs)
   \<and> (\<forall>r. fst (rspack_buildFixture cb rsbuild debug fp w) = Inr r
        \<longrightarrow> (debugOutputPath r \<noteq> None \<longleftrightarrow> debug = Some True))
   \<and> (\<forall>rs. fst (rspack_buildFixtures cb rsbuild debug fixtures w) = Inr rs
        \<longrightarrow> fixtures \<noteq> [] \<and> length rs = length fixtures
            \<and> list_all (\<lambda>r. debugOutputPath r \<noteq> None \<longleftrightarrow> debug = Some True) rs)
   \<and> (runEsbuild ecb fp (esbuild_outputPath fp) quiet = None
        \<longrightarrow> (\<exists>r. esbuild_buildFixture runEsbuild ecb fp quiet debug = Inr r))
   \<and> (runEsbuildMultiEntry ecb
          (map (\<lambda>f. (fixturePath f, esbuild_outputPath (fixturePath f))) fixtures) quiet = None
        \<longrightarrow> (\<exists>rs. esbuild_buildFixtures runEsbuildMultiEntry ecb fixtures quiet debug = Inr rs))
   \<and> (rsbuild (cb (rspack_defaultConfig debug fp)) = None
        \<longrightarrow> (\<exists>r. fst (rspack_buildFixture cb rsbuild debug fp w) = Inr r
               \<and> debugOutputPath r
                   = (if debug = Some True then Some (rspack_debugOutputPath fp) else None)))
   \<and> (fixtures \<noteq> []
        \<longrightarrow> (\<exists>envs. createMultiEntryEnvironmentConfig (rspack_fixturesWithPaths fixtures) debug
                       = Inr envs
               \<and> (rsbuild (cb (rspack_batchConfig fixtures envs)) = None
                    \<longrightarrow> (\<exists>rs. fst (rspack_buildFixtures cb rsbuild debug fixtures w) = Inr rs
                           \<and> map debugOutputPath rs
                               = map (\<lambda>f. if debug = Some True
                                           then Some (rspack_debugOutputPath (fixturePath f))
                                           else None) fixtures))))"
proof (intro conjI allI impI)
  fix r assume "esbuild_buildFixture runEsbuild ecb fp quiet debug = Inr r"
  then show "debugOutputPath r = None"
    by (auto simp: esbuild_buildFixture_eq split: option.splits)
next
  fix rs assume rs: "esbuild_buildFixtures runEsbuildMultiEntry ecb fixtures quiet debug = Inr rs"
  then show "length rs = length fixtures"
    by (auto simp: esbuild_buildFixtures_eq split: option.splits)
  from rs show "list_all (\<lambda>r. debugOutputPath r = None) rs"
    by (auto simp: esbuild_buildFixtures_eq list_all_iff split: option.splits)
next
  fix r assume "fst (rspack_buildFixture cb rsbuild debug fp w) = Inr r"
  then show "debugOutputPath r \<noteq> None \<longleftrightarrow> debug = Some True"
    by (auto simp: rspack_buildFixture_fst rspack_result_def truthy_def
          split: option.splits if_splits)
next
  fix rs assume rs: "fst (rspack_buildFixtures cb rsbuild debug fixtures w) = Inr rs"
  then show ne: "fixtures \<noteq> []"
    by (auto simp: rspack_buildFixtures_empty)
  from rspack_environments_nonempty [OF ne, of debug] obtain envs where
    "createMultiEntryEnvironmentConfig (rspack_fixturesWithPaths fixtures) debug = Inr envs"
    by blast
  note closed = rspack_buildFixtures_fst [OF this, of cb rsbuild w]
  from rs closed show "length rs = length fixtures"
    by (auto split: option.splits)
  from rs closed
  show "list_all (\<lambda>r. debugOutputPath r \<noteq> None \<longleftrightarrow> debug = Some True) rs"
    by (auto simp: list_all_iff rspack_result_def truthy_def split: option.splits if_splits)
next
  assume "runEsbuild ecb fp (esbuild_outputPath fp) quiet = None"
  then show "\<exists>r. esbuild_buildFixture runEsbuild ecb fp quiet debug = Inr r"
    by (simp add: esbuild_buildFixture_eq)
next
  assume "runEsbuildMultiEntry ecb
          (map (\<lambda>f. (fixturePath f, esbuild_outputPath (fixturePath f))) fixtures) quiet = None"
  then show "\<exists>rs. esbuild_buildFixtures runEsbuildMultiEntry ecb fixtures quiet debug = Inr rs"
    by (simp add: esbuild_buildFixtures_eq)
next
  assume "rsbuild (cb (rspack_defaultConfig debug fp)) = None"
  then show "\<exists>r. fst (rspack_buildFixture cb rsbuild debug fp w) = Inr r
               \<and> debugOutputPath r
                   = (if debug = Some True then Some (rspack_debugOutputPath fp) else None)"
    by (simp add: rspack_buildFixture_fst rspack_result_def truthy_def)
next
  assume ne: "fixtures \<noteq> []"
  from rspack_environments_nonempty [OF ne, of debug] obtain envs where
    envs: "createMultiEntryEnvironmentConfig (rspack_fixturesWithPaths fixtures) debug = Inr envs"
    by blast
  have imp: "rsbuild (cb (rspack_batchConfig fixtures envs)) = None
          \<longrightarrow> (\<exists>rs. fst (rspack_buildFixtures cb rsbuild debug fixtures w) = Inr rs
                 \<and> map debugOutputPath rs
                     = map (\<lambda>f. if debug = Some True
                                 then Some (rspack_debugOutputPath (fixturePath f))
                                 else None) fixtures)"
    by (simp add: rspack_buildFixtures_fst [OF envs] rspack_result_def truthy_def comp_def)
  show "\<exists>envs. createMultiEntryEnvironmentConfig (rspack_fixturesWithPaths fixtures) debug
                       = Inr envs
               \<and> (rsbuild (cb (rspack_batchConfig fixtures envs)) = None
                    \<longrightarrow> (\<exists>rs. fst (rspack_buildFixtures cb rsbuild debug fixtures w) = Inr rs
                           \<and> map debugOutputPath rs
                               = map (\<lambda>f. if debug = Some True
                                           then Some (rspack_debugOutputPath (fixturePath f))
                                           else None) fixtures))"
    by (rule exI [of _ envs]) (rule conjI [OF envs imp])
qed

theorem debug_output_presence_witness:
  "fixtures_named_ab \<noteq> []
   \<and> fst (rspack_buildFixtures (\<lambda>c. c) (\<lambda>c. None) (Some True) fixtures_named_ab empty_world)
     = Inr [\<lparr> result_name = Some ''a'', outputPath = ''/pkg/monosize/dist/a.output.js'',
              debugOutputPath = Some ''/pkg/monosize/dist/a.debug.js'' \<rparr>,
            \<lparr> result_name = Some ''b'', outputPath = ''/pkg/monosize/dist/b.output.js'',
              debugOutputPath = Some ''/pkg/monosize/dist/b.debug.js'' \<rparr>]
   \<and> fst (rspack_buildFixtures (\<lambda>c. c) (\<lambda>c. None) (Some False) fixtures_named_ab empty_world)
     = Inr [\<lparr> result_name = Some ''a'', outputPath = ''/pkg/monosize/dist/a.output.js'',
              debugOutputPath = None \<rparr>,
            \<lparr> result_name = Some ''b'', outputPath = ''/pkg/monosize/dist/b.output.js'',
              debugOutputPath = None \<rparr>]
   \<and> esbuild_buildFixtures (\<lambda>c fs q. None) (\<lambda>c. c) fixtures_named_ab True (Some True)
     = Inr [\<lparr> result_name = Some ''a'', outputPath = ''/pkg/monosize/a.output.js'',
              debugOutputPath = None \<rparr>,
            \<lparr> result_name = Some ''b'', outputPath = ''/pkg/monosize/b.output.js'',
              debugOutputPath = None \<rparr>]
   \<and> fst (rspack_buildFixture (\<lambda>c. c) (\<lambda>c. None) (Some True) ''/pkg/monosize/a.fixture.js''
          empty_world)
     = Inr \<lparr> result_name = None, outputPath = ''/pkg/monosize/dist/a.output.js'',
             debugOutputPath = Some ''/pkg/monosize/dist/a.debug.js'' \<rparr>
   \<and> fst (rspack_buildFixture (\<lambda>c. c) (\<lambda>c. None) (Some False) ''/pkg/monosize/a.fixture.js''
          empty_world)
     = Inr \<lparr> result_name = None, outputPath = ''/pkg/monosize/dist/a.output.js'',
             debugOutputPath = None \<rparr>
   \<and> esbuild_buildFixture (\<lambda>c fp op q. None) (\<lambda>c. c) ''/pkg/monosize/a.fixture.js'' True
        (Some True)
     = Inr \<lparr> result_name = None, outputPath = ''/pkg/monosize/a.output.js'',
             debugOutputPath = None \<rparr>"
proof -
  have ne: "fixtures_named_ab \<noteq> []" by (simp add: fixtures_named_ab_def)
  obtain envs where envs:
    "createMultiEntryEnvironmentConfig (rspack_fixturesWithPaths fixtures_named_ab) (Some True)
       = Inr envs"
    using rspack_environments_ab by blast
  obtain envs' where envs':
    "createMultiEntryEnvironmentConfig (rspack_fixturesWithPaths fixtures_named_ab) (Some False)
       = Inr envs'"
    using rspack_environments_ab by blast
  have b1: "fst (rspack_buildFixtures (\<lambda>c. c) (\<lambda>c. None) (Some True) fixtures_named_ab
                  empty_world)
     = Inr [\<lparr> result_name = Some ''a'', outputPath = ''/pkg/monosize/dist/a.output.js'',
              debugOutputPath = Some ''/pkg/monosize/dist/a.debug.js'' \<rparr>,
            \<lparr> result_name = Some ''b'', outputPath = ''/pkg/monosize/dist/b.output.js'',
              debugOutputPath = Some ''/pkg/monosize/dist/b.debug.js'' \<rparr>]"
    unfolding rspack_buildFixtures_fst [OF envs]
    by (simp add: fixtures_named_ab_def rspack_result_def
          truthy_def rspack_outputPath_a rspack_outputPath_b rspack_debugOutputPath_a
          rspack_debugOutputPath_b)
  have b2: "fst (rspack_buildFixtures (\<lambda>c. c) (\<lambda>c. None) (Some False) fixtures_named_ab
                  empty_world)
     = Inr [\<lparr> result_name = Some ''a'', outputPath = ''/pkg/monosize/dist/a.output.js'',
              debugOutputPath = None \<rparr>,
            \<lparr> result_name = Some ''b'', outputPath = ''/pkg/monosize/dist/b.output.js'',
              debugOutputPath = None \<rparr>]"
    unfolding rspack_buildFixtures_fst [OF envs']
    by (simp add: fixtures_named_ab_def rspack_result_def
          truthy_def rspack_outputPath_a rspack_outputPath_b)
  have e: "esbuild_buildFixtures (\<lambda>c fs q. None) (\<lambda>c. c) fixtures_named_ab True (Some True)
     = Inr [\<lparr> result_name = Some ''a'', outputPath = ''/pkg/monosize/a.output.js'',
              debugOutputPath = None \<rparr>,
            \<lparr> result_name = Some ''b'', outputPath = ''/pkg/monosize/b.output.js'',
              debugOutputPath = None \<rparr>]"
    by (simp add: esbuild_buildFixtures_eq fixtures_named_ab_def esbuild_outputPath_a
          esbuild_outputPath_b)
  have s1: "fst (rspack_buildFixture (\<lambda>c. c) (\<lambda>c. None) (Some True)
                  ''/pkg/monosize/a.fixture.js'' empty_world)
     = Inr \<lparr> result_name = None, outputPath = ''/pkg/monosize/dist/a.output.js'',
             debugOutputPath = Some ''/pkg/monosize/dist/a.debug.js'' \<rparr>"
    by (simp add: rspack_buildFixture_fst rspack_result_def truthy_def rspack_outputPath_a
          rspack_debugOutputPath_a)
  have s2: "fst (rspack_buildFixture (\<lambda>c. c) (\<lambda>c. None) (Some False)
                  ''/pkg/monosize/a.fixture.js'' empty_world)
     = Inr \<lparr> result_name = None, outputPath = ''/pkg/monosize/dist/a.output.js'',
             debugOutputPath = None \<rparr>"
    by (simp add: rspack_buildFixture_fst rspack_result_def truthy_def rspack_outputPath_a)
  have s3: "esbuild_buildFixture (\<lambda>c fp op q. None) (\<lambda>c. c) ''/pkg/monosize/a.fixture.js'' True
        (Some True)
     = Inr \<lparr> result_name = None, outputPath = ''/pkg/monosize/a.output.js'',
             debugOutputPath = None \<rparr>"
    by (simp add: esbuild_buildFixture_eq esbuild_outputPath_a)
  show ?thesis
    using ne b1 b2 e s1 s2 s3
      debug_output_presence [of "\<lambda>c fp op q. None" "\<lambda>c. c"
        "''/pkg/monosize/a.fixture.js''" True "Some True" "\<lambda>c fs q. None" fixtures_named_ab
        "\<lambda>c. c" "\<lambda>c. None" empty_world]
    by simp
qed

text \<open>
  C6. A batch that succeeds returns one result per fixture, in input order, each with the
  name of its fixture and with the paths the single build of that fixture returns; the
  results are a function of the fixtures and the debug flag, whatever the enhancer and
  the backend do. The output directory of every environment of the Rsbuild batch is the
  directory of the first result's \<open>outputPath\<close>, and the webpack batch configuration
  writes \<open>[name].js\<close> into the directory of the first fixture's \<open>outputPath\<close>.
\<close>

theorem batch_fan_out:
  assumes "fst (rspack_buildFixtures cb rsbuild dbg fixtures w) = Inr rs"
    and "esbuild_buildFixtures runEsbuildMultiEntry ecb efixtures quiet edbg = Inr ers"
    and "wfixtures \<noteq> []"
  shows "rs = map (\<lambda>f. (rspack_result dbg (fixturePath f))\<lparr> result_name := Some (name f) \<rparr>)
                fixtures
       \<and> length rs = length fixtures
       \<and> (\<forall>i<length fixtures.
             result_name (rs ! i) = Some (name (fixtures ! i))
             \<and> (\<forall>cb' rsbuild' w' r.
                   fst (rspack_buildFixture cb' rsbuild' dbg (fixturePath (fixtures ! i)) w')
                     = Inr r
                   \<longrightarrow> outputPath (rs ! i) = outputPath r
                       \<and> debugOutputPath (rs ! i) = debugOutputPath r))
       \<and> (\<exists>envs. createMultiEntryEnvironmentConfig (rspack_fixturesWithPaths fixtures) dbg
                    = Inr envs
             \<and> envs \<noteq> []
             \<and> list_all (\<lambda>e. distPath_root (env_output (snd e))
                              = dirname (outputPath (hd rs))) envs
             \<and> snd (rspack_buildFixtures cb rsbuild dbg fixtures w)
                 = logged w (rspack_batchConfig fixtures envs)
                     (cb (rspack_batchConfig fixtures envs)))
       \<and> ers = map (\<lambda>f. \<lparr> result_name = Some (name f),
                            outputPath = esbuild_outputPath (fixturePath f),
                            debugOutputPath = None \<rparr>) efixtures
       \<and> (\<exists>cfg. createMultiEntryWebpackConfig wfixtures debug = Inr cfg
             \<and> filename (output_settings cfg) = ''[name].js''
             \<and> path (output_settings cfg) = dirname (snd (hd wfixtures)))"
proof -
  have ne: "fixtures \<noteq> []"
    using assms(1) by (auto simp: rspack_buildFixtures_empty)
  obtain envs where envs:
      "createMultiEntryEnvironmentConfig (rspack_fixturesWithPaths fixtures) dbg = Inr envs"
      "envs \<noteq> []"
      "list_all (\<lambda>e. distPath_root (env_output (snd e))
                  = dirname (rspack_outputPath (fixturePath (hd fixtures)))) envs"
    using rspack_environments_nonempty [OF ne, of dbg] by blast
  have rs: "rs = map (\<lambda>f. (rspack_result dbg (fixturePath f))\<lparr> result_name := Some (name f) \<rparr>)
                fixtures"
    using assms(1) rspack_buildFixtures_fst [OF envs(1), of cb rsbuild w]
    by (auto split: option.splits)
  have len: "length rs = length fixtures" by (simp add: rs)
  have nth: "\<forall>i<length fixtures.
             result_name (rs ! i) = Some (name (fixtures ! i))
             \<and> (\<forall>cb' rsbuild' w' r.
                   fst (rspack_buildFixture cb' rsbuild' dbg (fixturePath (fixtures ! i)) w')
                     = Inr r
                   \<longrightarrow> outputPath (rs ! i) = outputPath r
                       \<and> debugOutputPath (rs ! i) = debugOutputPath r)"
    by (auto simp: rs rspack_buildFixture_fst split: option.splits)
  have hd: "outputPath (hd rs) = rspack_outputPath (fixturePath (hd fixtures))"
    using ne by (cases fixtures) (simp_all add: rs rspack_result_def)
  have dir: "list_all (\<lambda>e. distPath_root (env_output (snd e))
                              = dirname (outputPath (hd rs))) envs"
    using envs(3) by (simp add: hd)
  have calls: "snd (rspack_buildFixtures cb rsbuild dbg fixtures w)
                 = logged w (rspack_batchConfig fixtures envs)
                     (cb (rspack_batchConfig fixtures envs))"
    using rspack_buildFixtures_snd [OF envs(1)] by (simp add: rspack_batchConfig_def)
  have ers: "ers = map (\<lambda>f. \<lparr> result_name = Some (name f),
                            outputPath = esbuild_outputPath (fixturePath f),
                            debugOutputPath = None \<rparr>) efixtures"
    using assms(2) by (auto simp: esbuild_buildFixtures_eq split: option.splits)
  have wp: "\<exists>cfg. createMultiEntryWebpackConfig wfixtures debug = Inr cfg
             \<and> filename (output_settings cfg) = ''[name].js''
             \<and> path (output_settings cfg) = dirname (snd (hd wfixtures))"
    using assms(3)
    by (cases wfixtures)
       (simp_all add: createMultiEntryWebpackConfig_def Let_def base_config.extend_def
          webpack_config.fields_def)
  from rs len nth envs(1,2) dir calls ers wp show ?thesis by blast
qed

theorem batch_fan_out_witness:
  "fst (rspack_buildFixtures (\<lambda>c. c) (\<lambda>c. None) (Some True) fixtures_named_ab empty_world)
     = Inr [\<lparr> result_name = Some ''a'', outputPath = ''/pkg/monosize/dist/a.output.js'',
              debugOutputPath = Some ''/pkg/monosize/dist/a.debug.js'' \<rparr>,
            \<lparr> result_name = Some ''b'', outputPath = ''/pkg/monosize/dist/b.output.js'',
              debugOutputPath = Some ''/pkg/monosize/dist/b.debug.js'' \<rparr>]
   \<and> esbuild_buildFixtures (\<lambda>c fs q. None) (\<lambda>c. c) fixtures_named_ab True None
     = Inr [\<lparr> result_name = Some ''a'', outputPath = ''/pkg/monosize/a.output.js'',
              debugOutputPath = None \<rparr>,
            \<lparr> result_name = Some ''b'', outputPath = ''/pkg/monosize/b.output.js'',
              debugOutputPath = None \<rparr>]
   \<and> fixtures_ab \<noteq> []"
proof -
  obtain envs where envs:
    "createMultiEntryEnvironmentConfig (rspack_fixturesWithPaths fixtures_named_ab) (Some True)
       = Inr envs"
    using rspack_environments_ab by blast
  have h1: "fst (rspack_buildFixtures (\<lambda>c. c) (\<lambda>c. None) (Some True) fixtures_named_ab
                  empty_world)
     = Inr [\<lparr> result_name = Some ''a'', outputPath = ''/pkg/monosize/dist/a.output.js'',
              debugOutputPath = Some ''/pkg/monosize/dist/a.debug.js'' \<rparr>,
            \<lparr> result_name = Some ''b'', outputPath = ''/pkg/monosize/dist/b.output.js'',
              debugOutputPath = Some ''/pkg/monosize/dist/b.debug.js'' \<rparr>]"
    unfolding rspack_buildFixtures_fst [OF envs]
    by (simp add: fixtures_named_ab_def rspack_result_def
          truthy_def rspack_outputPath_a rspack_outputPath_b rspack_debugOutputPath_a
          rspack_debugOutputPath_b)
  have h2: "esbuild_buildFixtures (\<lambda>c fs q. None) (\<lambda>c. c) fixtures_named_ab True None
     = Inr [\<lparr> result_name = Some ''a'', outputPath = ''/pkg/monosize/a.output.js'',
              debugOutputPath = None \<rparr>,
            \<lparr> result_name = Some ''b'', outputPath = ''/pkg/monosize/b.output.js'',
              debugOutputPath = None \<rparr>]"
    by (simp add: esbuild_buildFixtures_eq fixtures_named_ab_def esbuild_outputPath_a
          esbuild_outputPath_b)
  have h3: "fixtures_ab \<noteq> []" by (simp add: fixtures_ab_def)
  show ?thesis
    using h1 h2 h3 batch_fan_out [OF h1 h2 h3, of False] by simp
qed

section \<open>Compilation errors\<close>

text \<open>
  C7. The promise of a webpack run, single or batch (of a non-empty list), is rejected if
  and only if the compiler passes an error to its callback or the compilation has errors;
  when only the compilation has errors, it is rejected with its errors joined by newlines
  into one message; otherwise it is fulfilled with \<open>null\<close>, and a batch has no other
  outcome than these two for all of its fixtures together.
\<close>

theorem compilation_error_propagation:
  assumes "fixtures \<noteq> []"
  shows "propagates (fst (runWebpack enhanceConfig webpack fp op debug w))
           (webpack (enhanceConfig (createWebpackConfig fp op debug)))
       \<and> (\<exists>cfg. createMultiEntryWebpackConfig fixtures debug = Inr cfg
            \<and> propagates (fst (runWebpackMultiEntry enhanceConfig webpack fixtures debug w))
                 (webpack (enhanceConfig cfg)))"
proof -
  have single: "propagates (fst (runWebpack enhanceConfig webpack fp op debug w))
           (webpack (enhanceConfig (createWebpackConfig fp op debug)))"
    unfolding runWebpack_fst
    using compiler_callback_propagates
      [of "fst (webpack (enhanceConfig (createWebpackConfig fp op debug)))"
          "snd (webpack (enhanceConfig (createWebpackConfig fp op debug)))"]
    by simp
  obtain cfg where cfg: "createMultiEntryWebpackConfig fixtures debug = Inr cfg"
    using createMultiEntryWebpackConfig_nonempty [OF assms] by blast
  have "propagates (fst (runWebpackMultiEntry enhanceConfig webpack fixtures debug w))
                 (webpack (enhanceConfig cfg))"
    unfolding runWebpackMultiEntry_fst [OF cfg]
    using compiler_callback_propagates
      [of "fst (webpack (enhanceConfig cfg))" "snd (webpack (enhanceConfig cfg))"]
    by simp
  with single cfg show ?thesis by blast
qed

theorem compilation_error_propagation_witness:
  "fixtures_ab \<noteq> []
   \<and> fst (runWebpack (\<lambda>c. c) failing_compiler ''/pkg/monosize/a.fixture.js''
           ''/pkg/monosize/a.output.js'' False empty_world)
       = Rejected (CompilationErrors (''Module not found'' @ CHR 0x0A # ''Parse error''))
   \<and> fst (runWebpackMultiEntry (\<lambda>c. c) failing_compiler fixtures_ab False empty_world)
       = Rejected (CompilationErrors (''Module not found'' @ CHR 0x0A # ''Parse error''))"
proof -
  have ne: "fixtures_ab \<noteq> []" by (simp add: fixtures_ab_def)
  show ?thesis
    using ne compilation_error_propagation [OF ne, of "\<lambda>c. c" failing_compiler
        "''/pkg/monosize/a.fixture.js''" "''/pkg/monosize/a.output.js''" False
        empty_world]
    by (auto simp add: propagates_def reports_error_def rejected_def failing_compiler_def
          split: promise.splits)
qed

section \<open>The enhancer\<close>

text \<open>
  C8. Every run (\<open>runWebpack\<close>, \<open>runWebpackMultiEntry\<close> and both builds of the Rsbuild
  adapter, a batch being non-empty) calls the enhancer exactly once, with the default
  configuration it has assembled, which for a batch is the one configuration of all its
  fixtures, and then calls the backend exactly once, with the value the enhancer
  returned.
\<close>

theorem enhancer_called_once:
  assumes "wfixtures \<noteq> []" and "fixtures \<noteq> []"
  shows "snd (runWebpack enhanceConfig webpack fp op debug w)
           = logged w (createWebpackConfig fp op debug)
               (enhanceConfig (createWebpackConfig fp op debug))
       \<and> (\<exists>cfg. createMultiEntryWebpackConfig wfixtures debug = Inr cfg
             \<and> entry cfg = EntryMap (fst (entry_loop wfixtures 0 ([], [])))
             \<and> snd (runWebpackMultiEntry enhanceConfig webpack wfixtures debug w)
                 = logged w cfg (enhanceConfig cfg))
       \<and> snd (rspack_buildFixture cb rsbuild dbg fp v)
           = logged v (rspack_defaultConfig dbg fp) (cb (rspack_defaultConfig dbg fp))
       \<and> (\<exists>envs. createMultiEntryEnvironmentConfig (rspack_fixturesWithPaths fixtures) dbg
                    = Inr envs
             \<and> snd (rspack_buildFixtures cb rsbuild dbg fixtures v)
                 = logged v (rspack_batchConfig fixtures envs)
                     (cb (rspack_batchConfig fixtures envs)))"
proof -
  have single: "snd (runWebpack enhanceConfig webpack fp op debug w)
           = logged w (createWebpackConfig fp op debug)
               (enhanceConfig (createWebpackConfig fp op debug))"
    by (simp add: runWebpack_snd logged_def)
  obtain cfg where cfg: "createMultiEntryWebpackConfig wfixtures debug = Inr cfg"
      "entry cfg = EntryMap (fst (entry_loop wfixtures 0 ([], [])))"
    using createMultiEntryWebpackConfig_nonempty [OF assms(1), of debug] by blast
  have multi: "snd (runWebpackMultiEntry enhanceConfig webpack wfixtures debug w)
                 = logged w cfg (enhanceConfig cfg)"
    by (simp add: runWebpackMultiEntry_snd [OF cfg(1)] logged_def)
  have rsingle: "snd (rspack_buildFixture cb rsbuild dbg fp v)
           = logged v (rspack_defaultConfig dbg fp) (cb (rspack_defaultConfig dbg fp))"
    by (simp add: rspack_buildFixture_snd rspack_defaultConfig_def)
  obtain envs where envs:
      "createMultiEntryEnvironmentConfig (rspack_fixturesWithPaths fixtures) dbg = Inr envs"
    using rspack_environments_nonempty [OF assms(2), of dbg] by blast
  have rmulti: "snd (rspack_buildFixtures cb rsbuild dbg fixtures v)
                 = logged v (rspack_batchConfig fixtures envs)
                     (cb (rspack_batchConfig fixtures envs))"
    using rspack_buildFixtures_snd [OF envs] by (simp add: rspack_batchConfig_def)
  from single cfg multi rsingle envs rmulti show ?thesis by blast
qed

theorem enhancer_called_once_witness:
  "fixtures_ab \<noteq> [] \<and> fixtures_named_ab \<noteq> []
   \<and> map (\<lambda>c. pathinfo (output_settings c))
        (enhancer_calls (snd (runWebpackMultiEntry disable_pathinfo quiet_compiler
           fixtures_ab True empty_world))) = [Some True]
   \<and> map (\<lambda>c. pathinfo (output_settings c))
        (backend_calls (snd (runWebpackMultiEntry disable_pathinfo quiet_compiler
           fixtures_ab True empty_world))) = [Some False]
   \<and> map (\<lambda>c. pathinfo (output_settings c))
        (enhancer_calls (snd (runWebpack disable_pathinfo quiet_compiler
           ''/pkg/monosize/a.fixture.js'' ''/pkg/monosize/a.debug.js'' True empty_world)))
       = [Some True]
   \<and> map (\<lambda>c. pathinfo (output_settings c))
        (backend_calls (snd (runWebpack disable_pathinfo quiet_compiler
           ''/pkg/monosize/a.fixture.js'' ''/pkg/monosize/a.debug.js'' True empty_world)))
       = [Some False]
   \<and> length (enhancer_calls (snd (rspack_buildFixtures (\<lambda>c. c) (\<lambda>c. None) None
        fixtures_named_ab empty_world))) = 1"
proof -
  have w: "fixtures_ab \<noteq> []" by (simp add: fixtures_ab_def)
  have f: "fixtures_named_ab \<noteq> []" by (simp add: fixtures_named_ab_def)
  have p: "pathinfo (output_settings (createWebpackConfig fp op True)) = Some True" for fp op
    by (simp add: createWebpackConfig_def base_config.extend_def webpack_config.fields_def)
  have q: "createMultiEntryWebpackConfig fixtures_ab True = Inr cfg
      \<Longrightarrow> pathinfo (output_settings cfg) = Some True" for cfg
    by (auto simp: createMultiEntryWebpackConfig_def fixtures_ab_def Let_def
          base_config.extend_def webpack_config.fields_def)
  show ?thesis
    using w f q enhancer_called_once [OF w f, of disable_pathinfo quiet_compiler
        "''/pkg/monosize/a.fixture.js''" "''/pkg/monosize/a.debug.js''" True empty_world
        "\<lambda>c. c" "\<lambda>c. None" None empty_world]
    by (auto simp: logged_def empty_world_def disable_pathinfo_def p)
qed

section \<open>The first fixture\<close>

text \<open>
  C9. For a non-empty list of fixtures the batch configurations are built: the shared
  output directory is the directory of the first fixture's \<open>outputPath\<close>, the root of the
  Rsbuild build is the directory of the first fixture's path, and the enhancer is reached.
  For the empty list each construction throws a \<open>TypeError\<close> instead, before any call of
  the enhancer or the backend.
\<close>

theorem first_fixture_access_safe:
  assumes "wfixtures \<noteq> []" and "fixtures \<noteq> []"
  shows "(\<exists>cfg. createMultiEntryWebpackConfig wfixtures debug = Inr cfg
            \<and> path (output_settings cfg) = dirname (snd (hd wfixtures)))
       \<and> (\<exists>envs. createMultiEntryEnvironmentConfig (rspack_fixturesWithPaths fixtures) dbg
                   = Inr envs
            \<and> envs \<noteq> []
            \<and> list_all (\<lambda>e. distPath_root (env_output (snd e))
                  = dirname (rspack_outputPath (fixturePath (hd fixtures)))) envs
            \<and> snd (rspack_buildFixtures cb rsbuild dbg fixtures w)
                = logged w (rspack_batchConfig fixtures envs)
                    (cb (rspack_batchConfig fixtures envs))
            \<and> root (rspack_batchConfig fixtures envs) = dirname (fixturePath (hd fixtures)))
       \<and> createMultiEntryWebpackConfig [] debug = Inl TypeError
       \<and> createMultiEntryEnvironmentConfig [] dbg = Inl TypeError
       \<and> rspack_buildFixtures cb rsbuild dbg [] w = (Inl TypeError, w)"
proof -
  obtain cfg where cfg: "createMultiEntryWebpackConfig wfixtures debug = Inr cfg"
      "path (output_settings cfg) = dirname (snd (hd wfixtures))"
    using createMultiEntryWebpackConfig_nonempty [OF assms(1), of debug] by blast
  obtain envs where envs:
      "createMultiEntryEnvironmentConfig (rspack_fixturesWithPaths fixtures) dbg = Inr envs"
      "envs \<noteq> []"
      "list_all (\<lambda>e. distPath_root (env_output (snd e))
                  = dirname (rspack_outputPath (fixturePath (hd fixtures)))) envs"
    using rspack_environments_nonempty [OF assms(2), of dbg] by blast
  have calls: "snd (rspack_buildFixtures cb rsbuild dbg fixtures w)
                = logged w (rspack_batchConfig fixtures envs)
                    (cb (rspack_batchConfig fixtures envs))"
    using rspack_buildFixtures_snd [OF envs(1)] by (simp add: rspack_batchConfig_def)
  have e1: "createMultiEntryWebpackConfig [] debug = Inl TypeError"
    by (simp add: createMultiEntryWebpackConfig_def)
  have e2: "createMultiEntryEnvironmentConfig [] dbg = Inl TypeError"
    by (simp add: createMultiEntryEnvironmentConfig_def)
  have root: "root (rspack_batchConfig fixtures envs) = dirname (fixturePath (hd fixtures))"
    by (simp add: rspack_batchConfig_def)
  from cfg envs calls e1 e2 root rspack_buildFixtures_empty show ?thesis by blast
qed

theorem first_fixture_access_safe_witness:
  "fixtures_ab \<noteq> [] \<and> fixtures_named_ab \<noteq> []
   \<and> (\<exists>cfg. createMultiEntryWebpackConfig fixtures_ab False = Inr cfg
         \<and> path (output_settings cfg) = ''/pkg/monosize'')
   \<and> map root (enhancer_calls
        (snd (rspack_buildFixtures (\<lambda>c. c) (\<lambda>c. None) None fixtures_named_ab empty_world)))
       = [''/pkg/monosize'']"
proof -
  have w: "fixtures_ab \<noteq> []" by (simp add: fixtures_ab_def)
  have f: "fixtures_named_ab \<noteq> []" by (simp add: fixtures_named_ab_def)
  have h1: "snd (hd fixtures_ab) = ''/pkg/monosize/a.output.js''"
    by (simp add: fixtures_ab_def)
  have h2: "fixturePath (hd fixtures_named_ab) = ''/pkg/monosize/a.fixture.js''"
    by (simp add: fixtures_named_ab_def)
  show ?thesis
    using w f first_fixture_access_safe [OF w f, of False None "\<lambda>c. c" "\<lambda>c. None" empty_world]
    by (auto simp: h1 h2 dirname_a dirname_fixture_a logged_def empty_world_def)
qed

section \<open>The two versions of the multi-entry configuration\<close>

lemma entry_loop_no_collision:
  "distinct (map (\<lambda>f. entryKey (snd f)) fixtures) \<Longrightarrow>
   set seenKeys \<inter> set (map (\<lambda>f. entryKey (snd f)) fixtures) = {} \<Longrightarrow>
   fst (entry_loop fixtures index (entry', seenKeys)) = entry_loop_old fixtures entry'"
proof (induction fixtures arbitrary: index entry' seenKeys)
  case Nil
  then show ?case by simp
next
  case (Cons f fixtures)
  obtain fp op where f: "f = (fp, op)" by (cases f)
  from Cons.prems have fresh: "entryKey op \<notin> set seenKeys" by (auto simp: f)
  have new: "entry_loop (f # fixtures) index (entry', seenKeys) =
      entry_loop fixtures (Suc index)
        (assign (entryKey op) fp entry', List.insert (entryKey op) seenKeys)"
    using fresh by (simp add: entry_step_def entryName_of_def f Let_def)
  have old: "entry_loop_old (f # fixtures) entry' =
      entry_loop_old fixtures (assign (entryKey op) fp entry')"
    by (simp add: f)
  have d: "distinct (map (\<lambda>f. entryKey (snd f)) fixtures)"
    using Cons.prems(1) by simp
  have i: "set (List.insert (entryKey op) seenKeys)
             \<inter> set (map (\<lambda>f. entryKey (snd f)) fixtures) = {}"
    using Cons.prems by (auto simp: f)
  show ?case
    unfolding new old by (rule Cons.IH [OF d i])
qed

lemma spread_base_config:
  "base_config.extend (createBaseWebpackConfig debug) (webpack_config.fields e out) =
     \<lparr> config_name = ''client'',
       target = ''web'',
       mode = ''production'',
       cache_type = ''memory'',
       externals = [(''react'', ''React''), (''react-dom'', ''ReactDOM'')],
       performance_hints = False,
       optimization =
         (if debug then \<lparr> minimize = Some False, minimizer = [] \<rparr>
          else \<lparr> minimize = None, minimizer = [TerserWebpackPlugin False False] \<rparr>),
       stats_optimizationBailout = (if debug then Some True else None),
       entry = e,
       output_settings = out \<rparr>"
  by (simp add: createBaseWebpackConfig_def base_config.extend_def webpack_config.fields_def)

lemma entryKey_a_output: "entryKey ''/pkg/monosize/a.output.js'' = ''a.output''"
  by code_simp

lemma entryKey_b_output: "entryKey ''/pkg/monosize/b.output.js'' = ''b.output''"
  by code_simp

text \<open>
  C10. The multi-entry configuration builder that tracks the seen keys and the earlier
  one without collision handling return the same result (the same entry map, output
  settings and every other field, or the same error on an empty list) for every
  list of fixtures whose entry keys, the output basenames without extension, are
  pairwise distinct.
\<close>

theorem multi_entry_old_new_agree:
  assumes "distinct (map (\<lambda>f. entryKey (snd f)) fixtures)"
  shows "createMultiEntryWebpackConfig fixtures debug =
         createMultiEntryWebpackConfig_old fixtures debug"
proof -
  have "fst (entry_loop fixtures 0 ([], [])) = entry_loop_old fixtures []"
    using assms by (intro entry_loop_no_collision) simp_all
  then show ?thesis
    by (simp add: createMultiEntryWebpackConfig_def createMultiEntryWebpackConfig_old_def
          spread_base_config Let_def split: list.splits)
qed

theorem multi_entry_old_new_agree_witness:
  "distinct (map (\<lambda>f. entryKey (snd f))
       [(''/pkg/monosize/a.fixture.js'', ''/pkg/monosize/a.output.js''),
        (''/pkg/monosize/b.fixture.js'', ''/pkg/monosize/b.output.js'')])
   \<and> createMultiEntryWebpackConfig
       [(''/pkg/monosize/a.fixture.js'', ''/pkg/monosize/a.output.js''),
        (''/pkg/monosize/b.fixture.js'', ''/pkg/monosize/b.output.js'')] False
     = createMultiEntryWebpackConfig_old
       [(''/pkg/monosize/a.fixture.js'', ''/pkg/monosize/a.output.js''),
        (''/pkg/monosize/b.fixture.js'', ''/pkg/monosize/b.output.js'')] False"
proof -
  have d: "distinct (map (\<lambda>f. entryKey (snd f))
       [(''/pkg/monosize/a.fixture.js'', ''/pkg/monosize/a.output.js''),
        (''/pkg/monosize/b.fixture.js'', ''/pkg/monosize/b.output.js'')])"
    by (simp add: entryKey_a_output entryKey_b_output)
  show ?thesis
    using d multi_entry_old_new_agree [OF d, of False] by simp
qed

text \<open>
  Output paths derived from fixture paths end in \<open>.output.js\<close>. For such paths the
  entry key is the basename without \<open>.js\<close>, so pairwise distinct output basenames give
  pairwise distinct entry keys, and the two versions agree.
\<close>

lemma length_last_component: "length (last_component p) \<le> length p"
proof -
  have "length (takeWhile (\<lambda>c. \<not> is_sep c) (dropWhile is_sep (rev p)))
          \<le> length (dropWhile is_sep (rev p))"
    by (rule length_takeWhile_le)
  also have "\<dots> \<le> length (rev p)" by (rule length_dropWhile_le)
  finally show ?thesis by (simp add: last_component_def)
qed

lemma extname_output_js:
  assumes "last_component p = s @ ''.output.js''"
  shows "extname p = ''.js''"
  by (simp add: extname_def assms Let_def)

lemma entryKey_output_js:
  assumes "last_component p = s @ ''.output.js''"
  shows "entryKey p = s @ ''.output''"
proof -
  have len: "length (s @ ''.output.js'') \<le> length p"
    using length_last_component [of p] by (simp only: assms)
  then have l3: "\<not> length p < 3" by simp
  have np: "''.js'' \<noteq> p" using len by auto
  show ?thesis
    unfolding entryKey_def extname_output_js [OF assms] basename_suffix_def
    using l3 np by (simp add: assms ends_with_def Let_def)
qed

lemma entryKeys_distinct_output_js:
  assumes "\<forall>f \<in> set fixtures. \<exists>s. basename (snd f) = s @ ''.output.js''"
    and "distinct (map (\<lambda>f. basename (snd f)) fixtures)"
  shows "distinct (map (\<lambda>f. entryKey (snd f)) fixtures)"
proof -
  have key: "basename (snd f) = entryKey (snd f) @ ''.js''" if "f \<in> set fixtures" for f
  proof -
    from assms(1) that obtain s where s: "basename (snd f) = s @ ''.output.js''" by blast
    then have "entryKey (snd f) = s @ ''.output''"
      by (intro entryKey_output_js) (simp add: basename_def)
    with s show ?thesis by simp
  qed
  have "map (\<lambda>f. basename (snd f)) fixtures = map (\<lambda>k. k @ ''.js'') (map (\<lambda>f. entryKey (snd f)) fixtures)"
    using key by (simp add: comp_def)
  with assms(2) show ?thesis
    by (metis distinct_map)
qed

lemma multi_entry_agree_output_js:
  assumes "\<forall>f \<in> set fixtures. \<exists>s. basename (snd f) = s @ ''.output.js''"
    and "distinct (map (\<lambda>f. basename (snd f)) fixtures)"
  shows "createMultiEntryWebpackConfig fixtures debug =
         createMultiEntryWebpackConfig_old fixtures debug"
proof -
  have "distinct (map (\<lambda>f. entryKey (snd f)) fixtures)"
    using assms by (rule entryKeys_distinct_output_js)
  then have "fst (entry_loop fixtures 0 ([], [])) = entry_loop_old fixtures []"
    by (intro entry_loop_no_collision) simp_all
  then show ?thesis
    by (simp add: createMultiEntryWebpackConfig_def createMultiEntryWebpackConfig_old_def
          spread_base_config Let_def split: list.splits)
qed

end
